theory Spec2Isabelle
  imports Main
begin

section \<open>Go strings\<close>

text \<open>
  Go strings are byte sequences; \<^typ>\<open>string\<close> is a list of 8-bit characters, so
  \<open>len(s)\<close> is \<^term>\<open>length s\<close> and \<open>s[n:]\<close> is \<^term>\<open>drop n s\<close>.
  Every separator the repository passes to \<open>strings.Split\<close> and \<open>strings.SplitN\<close>
  is one byte long (\<open>"/"\<close> and \<open>":"\<close>), so the separator is a \<^typ>\<open>char\<close> here.
\<close>

definition strings_HasPrefix :: "string \<Rightarrow> string \<Rightarrow> bool" where
  "strings_HasPrefix s p = (length p \<le> length s \<and> take (length p) s = p)"

fun strings_Index :: "string \<Rightarrow> char \<Rightarrow> nat option" where
  "strings_Index [] c = None"
| "strings_Index (x # xs) c =
     (if x = c then Some 0 else map_option Suc (strings_Index xs c))"

definition strings_Count :: "string \<Rightarrow> char \<Rightarrow> nat" where
  "strings_Count s c = length (filter (\<lambda>x. x = c) s)"

text \<open>
  \<open>strings.SplitN(s, sep, n)\<close> for \<open>n \<ge> 0\<close>: no substring for \<open>n = 0\<close>; otherwise at
  most \<open>n\<close> substrings, the last one being the unsplit remainder.
\<close>

fun strings_SplitN :: "string \<Rightarrow> char \<Rightarrow> nat \<Rightarrow> string list" where
  "strings_SplitN s c 0 = []"
| "strings_SplitN s c (Suc 0) = [s]"
| "strings_SplitN s c (Suc (Suc n)) =
     (case strings_Index s c of
        None \<Rightarrow> [s]
      | Some m \<Rightarrow> take m s # strings_SplitN (drop (m + 1) s) c (Suc n))"

text \<open>\<open>strings.Split(s, sep)\<close> is \<open>SplitN\<close> with \<open>n = Count(s, sep) + 1\<close>.\<close>

definition strings_Split :: "string \<Rightarrow> char \<Rightarrow> string list" where
  "strings_Split s c = strings_SplitN s c (strings_Count s c + 1)"


section \<open>Data of the RPC gateway (pkg/tiller/server.go)\<close>

text \<open>An \<open>error\<close> value is the message it was built from (\<open>errors.New\<close>, \<open>fmt.Errorf\<close>).\<close>

datatype error = errors_New string

text \<open>
  \<open>rest.Config\<close> of the cluster client library: the fields the gateway reads or writes,
  and four more (\<open>KeyData\<close>, \<open>CAData\<close>, \<open>Insecure\<close>, \<open>UserAgent\<close>) that stand for the
  fields it only copies along with the whole structure.
\<close>

record TLSClientConfig =
  CertData :: string
  KeyData :: string
  CAData :: string

record Config =
  Host :: string
  APIPath :: string
  Prefix :: string
  Username :: string
  Password :: string
  BearerToken :: string
  Impersonate :: string
  TLSClientConfig :: TLSClientConfig
  Insecure :: bool
  UserAgent :: string

text \<open>The zero value \<open>rest.Config{}\<close> of a composite literal.\<close>

definition Config_zero :: Config where
  "Config_zero =
     \<lparr>Host = [], APIPath = [], Prefix = [], Username = [], Password = [],
      BearerToken = [], Impersonate = [],
      TLSClientConfig = \<lparr>CertData = [], KeyData = [], CAData = []\<rparr>,
      Insecure = False, UserAgent = []\<rparr>"

text \<open>\<open>authenticationapi.UserInfo\<close> and the status of a token review.\<close>

record UserInfo =
  UserInfo_Username :: string
  UserInfo_UID :: string
  UserInfo_Groups :: "string list"

record TokenReviewStatus =
  Authenticated :: bool
  User :: UserInfo

text \<open>
  The peer of a call: its \<open>AuthInfo\<close> is an interface value; the type assertion
  \<open>peer.AuthInfo.(credentials.TLSInfo)\<close> succeeds on \<open>TLSInfo\<close> only. Of a certificate
  the gateway reads \<open>Subject.CommonName\<close>.
\<close>

record Certificate =
  Subject_CommonName :: string

datatype AuthInfo = TLSInfo (VerifiedChains: "Certificate list list") | OtherAuthInfo

record Peer =
  Peer_AuthInfo :: AuthInfo

text \<open>
  \<open>wrapClientConfig\<close> wraps a configuration; \<open>kube.New\<close> builds a client from it.
\<close>

datatype wrapClientConfig = wrapClientConfig (cfg: Config)

definition ClientConfig :: "wrapClientConfig \<Rightarrow> error + Config" where
  "ClientConfig w = Inr (cfg w)"

datatype Client = kube_New wrapClientConfig

text \<open>
  Modelled from the spec: the context keys of package \<open>kube\<close> (its source is not part of
  the sources at hand). Section 3 of the specification lists the per-call values as
  separate entries of the execution context, so the keys are distinct constants. The
  keys \<open>kube_UserClientConfig\<close> and \<open>kube_SystemClientConfig\<close> are those of the
  return-value-based variant of the gateway.
\<close>

datatype ctxkey =
  kube_UserInfo | kube_UserClient | kube_SystemClient | kube_ImpersonateUser
  | kube_UserClientConfig | kube_SystemClientConfig

text \<open>
  Modelled from the spec: the name of the authorization header, \<open>kube.Authorization\<close>
  (section 6: an \<open>authorization\<close> header).
\<close>

definition kube_Authorization :: string where
  "kube_Authorization = ''authorization''"

datatype ctxval =
  UserInfoVal UserInfo | ClientVal Client | ConfigVal Config | EmptyStruct

text \<open>
  A \<open>context.Context\<close> as the gateway sees it: the transport metadata
  (\<open>metadata.FromContext\<close>), the peer (\<open>peer.FromContext\<close>) and the values bound by
  \<open>context.WithValue\<close>. \<open>WithValue\<close> returns a new context; the one it is given is
  unchanged.
\<close>

type_synonym MD = "string \<rightharpoonup> string list"

record Ctx =
  ctx_metadata :: "MD option"
  ctx_peer :: "Peer option"
  ctx_values :: "ctxkey \<rightharpoonup> ctxval"

definition metadata_FromContext :: "Ctx \<Rightarrow> MD option" where
  "metadata_FromContext ctx = ctx_metadata ctx"

definition peer_FromContext :: "Ctx \<Rightarrow> Peer option" where
  "peer_FromContext ctx = ctx_peer ctx"

definition context_WithValue :: "Ctx \<Rightarrow> ctxkey \<Rightarrow> ctxval \<Rightarrow> Ctx" where
  "context_WithValue ctx k v = ctx\<lparr>ctx_values := (ctx_values ctx)(k \<mapsto> v)\<rparr>"

definition context_Value :: "Ctx \<Rightarrow> ctxkey \<Rightarrow> ctxval option" where
  "context_Value ctx k = ctx_values ctx k"

text \<open>
  What the gateway calls outside its own file: the version comparison of package
  \<open>version\<close> and the server's version, base64 decoding, the construction of a client set
  from a configuration, the token review and the server-version probe of the cluster.
\<close>

record env =
  version_IsCompatible :: "string \<Rightarrow> string \<Rightarrow> bool"
  version_Version :: string
  base64_DecodeString :: "string \<Rightarrow> error + string"
  ClientSet :: "Config \<Rightarrow> error option"
  TokenReviews_Create :: "Config \<Rightarrow> string \<Rightarrow> error + TokenReviewStatus"
  ServerVersion :: "Config \<Rightarrow> error option"

record UnaryServerInfo =
  FullMethod :: string

record StreamServerInfo =
  StreamServerInfo_FullMethod :: string

text \<open>
  A \<open>grpc.ServerStream\<close> is an interface: a value of it is the record of its methods.
  Sending and receiving act on the transport, whose state is \<^typ>\<open>'t\<close>; \<open>RecvMsg\<close>
  fills the message it is given.
\<close>

record ('m, 't) ServerStream =
  Context :: Ctx
  RecvMsg :: "'m \<Rightarrow> 't \<Rightarrow> (error option \<times> 'm) \<times> 't"
  SendMsg :: "'m \<Rightarrow> 't \<Rightarrow> error option \<times> 't"
  SendHeader :: "MD \<Rightarrow> 't \<Rightarrow> error option \<times> 't"
  SetHeader :: "MD \<Rightarrow> 't \<Rightarrow> error option \<times> 't"
  SetTrailer :: "MD \<Rightarrow> 't \<Rightarrow> 't"

record ('m, 't) serverStreamWrapper =
  w_ss :: "('m, 't) ServerStream"
  w_ctx :: Ctx


section \<open>The gateway, context-value-based (pkg/tiller/server.go)\<close>

subsection \<open>Stream wrapper\<close>

definition wrapper_Context :: "('m, 't) serverStreamWrapper \<Rightarrow> Ctx" where
  "wrapper_Context w = w_ctx w"

definition wrapper_RecvMsg ::
  "('m, 't) serverStreamWrapper \<Rightarrow> 'm \<Rightarrow> 't \<Rightarrow> (error option \<times> 'm) \<times> 't" where
  "wrapper_RecvMsg w msg = RecvMsg (w_ss w) msg"

definition wrapper_SendMsg ::
  "('m, 't) serverStreamWrapper \<Rightarrow> 'm \<Rightarrow> 't \<Rightarrow> error option \<times> 't" where
  "wrapper_SendMsg w msg = SendMsg (w_ss w) msg"

definition wrapper_SendHeader ::
  "('m, 't) serverStreamWrapper \<Rightarrow> MD \<Rightarrow> 't \<Rightarrow> error option \<times> 't" where
  "wrapper_SendHeader w md = SendHeader (w_ss w) md"

definition wrapper_SetHeader ::
  "('m, 't) serverStreamWrapper \<Rightarrow> MD \<Rightarrow> 't \<Rightarrow> error option \<times> 't" where
  "wrapper_SetHeader w md = SetHeader (w_ss w) md"

definition wrapper_SetTrailer :: "('m, 't) serverStreamWrapper \<Rightarrow> MD \<Rightarrow> 't \<Rightarrow> 't" where
  "wrapper_SetTrailer w md = SetTrailer (w_ss w) md"

text \<open>The wrapper as the \<open>grpc.ServerStream\<close> the handler is given.\<close>

definition wrapper_ServerStream ::
  "('m, 't) serverStreamWrapper \<Rightarrow> ('m, 't) ServerStream" where
  "wrapper_ServerStream w =
     \<lparr>Context = wrapper_Context w, RecvMsg = wrapper_RecvMsg w,
      SendMsg = wrapper_SendMsg w, SendHeader = wrapper_SendHeader w,
      SetHeader = wrapper_SetHeader w, SetTrailer = wrapper_SetTrailer w\<rparr>"

subsection \<open>Version check\<close>

definition splitMethod :: "string \<Rightarrow> string \<times> string" where
  "splitMethod fullMethod =
     (let frags = strings_Split fullMethod CHR ''/''
      in if length frags = 3 then (frags ! 1, frags ! 2) else (''unknown'', ''unknown''))"

definition versionFromContext :: "Ctx \<Rightarrow> string" where
  "versionFromContext ctx =
     (case metadata_FromContext ctx of
        Some md \<Rightarrow>
          (case md ''x-helm-api-client'' of
             Some v \<Rightarrow> if length v > 0 then v ! 0 else []
           | None \<Rightarrow> [])
      | None \<Rightarrow> [])"

definition checkClientVersion :: "env \<Rightarrow> Ctx \<Rightarrow> error option" where
  "checkClientVersion E ctx =
     (let clientVersion = versionFromContext ctx
      in if \<not> version_IsCompatible E clientVersion (version_Version E)
         then Some (errors_New (''incompatible versions client: '' @ clientVersion
                                  @ '' server: '' @ version_Version E))
         else None)"

subsection \<open>Credential verifiers\<close>

text \<open>
  In this file a verifier has the signature \<open>func(ctx, ..., syscfg) error\<close>. Its
  parameter \<open>ctx\<close> is a local variable: the assignments
  \<open>ctx = context.WithValue(ctx, ...)\<close> rebind that variable only. Each verifier is
  modelled as the pair of the value of its local \<open>ctx\<close> when it returns and the error it
  returns; a Go caller sees the second component only.
\<close>

definition getUserPasswordFromBasicAuth :: "string \<Rightarrow> string \<times> string" where
  "getUserPasswordFromBasicAuth token =
     (let st = strings_SplitN token CHR '':'' 2
      in if length st = 2 then (st ! 0, st ! 1) else ([], []))"

definition checkClientCert :: "Ctx \<Rightarrow> Config \<Rightarrow> Ctx \<times> error option" where
  "checkClientCert ctx syscfg =
     (case peer_FromContext ctx of
        None \<Rightarrow> (ctx, Some (errors_New ''No peer found!''))
      | Some peer \<Rightarrow>
          (case Peer_AuthInfo peer of
             OtherAuthInfo \<Rightarrow> (ctx, Some (errors_New ''No TLS credential found!''))
           | TLSInfo vcs \<Rightarrow>
               if length vcs = 0 \<or> length (vcs ! 0) = 0
               then (ctx, Some (errors_New ''No verified client certificate found!''))
               else
                 let c = vcs ! 0 ! 0;
                     user = \<lparr>UserInfo_Username = Subject_CommonName c,
                             UserInfo_UID = [], UserInfo_Groups = []\<rparr>;
                     usrcfg = syscfg\<lparr>Impersonate := Subject_CommonName c\<rparr>;
                     ctx1 = context_WithValue ctx kube_UserInfo (UserInfoVal user);
                     ctx2 = context_WithValue ctx1 kube_UserClient
                              (ClientVal (kube_New (wrapClientConfig usrcfg)));
                     ctx3 = context_WithValue ctx2 kube_SystemClient
                              (ClientVal (kube_New (wrapClientConfig syscfg)));
                     ctx4 = context_WithValue ctx3 kube_ImpersonateUser EmptyStruct
                 in (ctx4, None)))"

definition checkBearerAuth ::
  "env \<Rightarrow> Ctx \<Rightarrow> string \<Rightarrow> Config \<Rightarrow> Ctx \<times> error option" where
  "checkBearerAuth E ctx h syscfg =
     (let token = drop (length ''Bearer '') h;
          sysClient = kube_New (wrapClientConfig syscfg)
      in case ClientSet E syscfg of
           Some err \<Rightarrow> (ctx, Some err)
         | None \<Rightarrow>
             (case TokenReviews_Create E syscfg token of
                Inl err \<Rightarrow> (ctx, Some err)
              | Inr result \<Rightarrow>
                  if \<not> Authenticated result
                  then (ctx, Some (errors_New ''Not authenticated''))
                  else
                    let usrcfg0 = Config_zero\<lparr>Host := Host syscfg,
                                    APIPath := APIPath syscfg, Prefix := Prefix syscfg,
                                    BearerToken := token\<rparr>;
                        usrcfg = usrcfg0\<lparr>TLSClientConfig :=
                                   (TLSClientConfig usrcfg0)
                                     \<lparr>CertData := CertData (TLSClientConfig syscfg)\<rparr>\<rparr>;
                        ctx1 = context_WithValue ctx kube_UserInfo
                                 (UserInfoVal (User result));
                        ctx2 = context_WithValue ctx1 kube_UserClient
                                 (ClientVal (kube_New (wrapClientConfig usrcfg)));
                        ctx3 = context_WithValue ctx2 kube_SystemClient
                                 (ClientVal sysClient)
                    in (ctx3, None)))"

definition checkBasicAuth ::
  "env \<Rightarrow> Ctx \<Rightarrow> string \<Rightarrow> Config \<Rightarrow> Ctx \<times> error option" where
  "checkBasicAuth E ctx h syscfg =
     (case base64_DecodeString E (drop (length ''Basic '') h) of
        Inl err \<Rightarrow> (ctx, Some err)
      | Inr basicAuth \<Rightarrow>
          (case getUserPasswordFromBasicAuth basicAuth of
             (username, password) \<Rightarrow>
               if length username = 0 \<or> length password = 0
               then (ctx, Some (errors_New ''Missing username or password.''))
               else
                 let usrcfg0 = Config_zero\<lparr>Host := Host syscfg,
                                 APIPath := APIPath syscfg, Prefix := Prefix syscfg,
                                 Username := username, Password := password\<rparr>;
                     usrcfg = usrcfg0\<lparr>TLSClientConfig :=
                                (TLSClientConfig usrcfg0)
                                  \<lparr>CertData := CertData (TLSClientConfig syscfg)\<rparr>\<rparr>;
                     usrClient = kube_New (wrapClientConfig usrcfg)
                 in (case ClientSet E usrcfg of
                       Some err \<Rightarrow> (ctx, Some err)
                     | None \<Rightarrow>
                         (case ServerVersion E usrcfg of
                            Some err \<Rightarrow> (ctx, Some err)
                          | None \<Rightarrow>
                              let ctx1 = context_WithValue ctx kube_UserInfo
                                           (UserInfoVal \<lparr>UserInfo_Username = username,
                                              UserInfo_UID = [], UserInfo_Groups = []\<rparr>);
                                  ctx2 = context_WithValue ctx1 kube_UserClient
                                           (ClientVal usrClient);
                                  ctx3 = context_WithValue ctx2 kube_SystemClient
                                           (ClientVal (kube_New (wrapClientConfig syscfg)))
                              in (ctx3, None)))))"

subsection \<open>Dispatch and interceptors\<close>

text \<open>
  \<open>authenticate\<close> returns \<open>(nil, err)\<close> or \<open>(ctx, err)\<close>; both interceptors look at
  \<open>err\<close> first and use the context only when it is \<open>nil\<close>, so the result is a sum. The
  context returned on success is the variable \<open>ctx\<close> of \<open>authenticate\<close> itself, which
  no verifier has assigned to.
\<close>

definition authenticate :: "env \<Rightarrow> Ctx \<Rightarrow> Config \<Rightarrow> error + Ctx" where
  "authenticate E ctx syscfg =
     (case metadata_FromContext ctx of
        None \<Rightarrow> Inl (errors_New ''Missing metadata in context.'')
      | Some md \<Rightarrow>
          (let certPath = (case snd (checkClientCert ctx syscfg) of
                             Some err \<Rightarrow> Inl err | None \<Rightarrow> Inr ctx)
           in case md kube_Authorization of
                None \<Rightarrow> certPath
              | Some authHeader \<Rightarrow>
                  if length authHeader = 0 then certPath
                  else if authHeader ! 0 = [] then certPath
                  else if strings_HasPrefix (authHeader ! 0) ''Bearer ''
                  then (case snd (checkBearerAuth E ctx (authHeader ! 0) syscfg) of
                          Some err \<Rightarrow> Inl err | None \<Rightarrow> Inr ctx)
                  else if strings_HasPrefix (authHeader ! 0) ''Basic ''
                  then (case snd (checkBasicAuth E ctx (authHeader ! 0) syscfg) of
                          Some err \<Rightarrow> Inl err | None \<Rightarrow> Inr ctx)
                  else Inl (errors_New ''Unknown authorization scheme.'')))"

text \<open>
  An interceptor returns either its own error (\<open>Inl\<close>) or whatever the handler returns
  (\<open>Inr\<close>). The lines written to the log are left out: they change no result.
\<close>

definition newUnaryInterceptor ::
  "env \<Rightarrow> Config \<Rightarrow> Ctx \<Rightarrow> 'q \<Rightarrow> UnaryServerInfo \<Rightarrow> (Ctx \<Rightarrow> 'q \<Rightarrow> 'r)
     \<Rightarrow> error + 'r" where
  "newUnaryInterceptor E syscfg ctx req info handler =
     (let continue = (case authenticate E ctx syscfg of
                        Inl err \<Rightarrow> Inl err
                      | Inr ctx' \<Rightarrow> Inr (handler ctx' req))
      in case checkClientVersion E ctx of
           Some err \<Rightarrow>
             if snd (splitMethod (FullMethod info)) \<noteq> ''GetVersion'' then Inl err
             else continue
         | None \<Rightarrow> continue)"

definition newStreamInterceptor ::
  "env \<Rightarrow> Config \<Rightarrow> 'v \<Rightarrow> ('m, 't) ServerStream \<Rightarrow> StreamServerInfo
     \<Rightarrow> ('v \<Rightarrow> ('m, 't) ServerStream \<Rightarrow> 'r) \<Rightarrow> error + 'r" where
  "newStreamInterceptor E syscfg srv stream info handler =
     (let ctx = Context stream
      in case checkClientVersion E ctx of
           Some err \<Rightarrow> Inl err
         | None \<Rightarrow>
             (case authenticate E ctx syscfg of
                Inl err \<Rightarrow> Inl err
              | Inr ctx' \<Rightarrow>
                  let newStream = \<lparr>w_ss = stream, w_ctx = ctx'\<rparr>
                  in Inr (handler srv (wrapper_ServerStream newStream))))"


section \<open>The gateway, return-value-based (the second copy of the server file)\<close>

text \<open>
  The sources hold a second file of package \<open>tiller\<close> with the same interceptors,
  stream wrapper, \<open>splitMethod\<close>, \<open>versionFromContext\<close>, \<open>checkClientVersion\<close> and
  \<open>getUserPasswordFromBasicAuth\<close>. Its verifiers return
  \<open>(*UserInfo, *rest.Config, error)\<close> and its \<open>authenticate\<close> binds what they return.
  Its definitions carry the suffix \<open>_rv\<close>.
\<close>

definition checkClientCert_rv :: "Ctx \<Rightarrow> Config \<Rightarrow> error + UserInfo \<times> Config" where
  "checkClientCert_rv ctx syscfg =
     (case peer_FromContext ctx of
        None \<Rightarrow> Inl (errors_New ''No peer found!'')
      | Some peer \<Rightarrow>
          (case Peer_AuthInfo peer of
             OtherAuthInfo \<Rightarrow> Inl (errors_New ''No TLS credential found!'')
           | TLSInfo vcs \<Rightarrow>
               if length vcs = 0 \<or> length (vcs ! 0) = 0
               then Inl (errors_New ''No verified client certificate found!'')
               else
                 let c = vcs ! 0 ! 0;
                     user = \<lparr>UserInfo_Username = Subject_CommonName c,
                             UserInfo_UID = [], UserInfo_Groups = []\<rparr>;
                     usrcfg = syscfg\<lparr>Impersonate := Subject_CommonName c\<rparr>
                 in Inr (user, usrcfg)))"

definition checkBearerAuth_rv ::
  "env \<Rightarrow> string \<Rightarrow> Config \<Rightarrow> error + UserInfo \<times> Config" where
  "checkBearerAuth_rv E h syscfg =
     (let token = drop (length ''Bearer '') h
      in case ClientSet E syscfg of
           Some err \<Rightarrow> Inl err
         | None \<Rightarrow>
             (case TokenReviews_Create E syscfg token of
                Inl err \<Rightarrow> Inl err
              | Inr result \<Rightarrow>
                  if \<not> Authenticated result
                  then Inl (errors_New ''Not authenticated'')
                  else
                    let usrcfg0 = Config_zero\<lparr>Host := Host syscfg,
                                    APIPath := APIPath syscfg, Prefix := Prefix syscfg,
                                    BearerToken := token\<rparr>;
                        usrcfg = usrcfg0\<lparr>TLSClientConfig :=
                                   (TLSClientConfig usrcfg0)
                                     \<lparr>CertData := CertData (TLSClientConfig syscfg)\<rparr>\<rparr>
                    in Inr (User result, usrcfg)))"

definition checkBasicAuth_rv ::
  "env \<Rightarrow> string \<Rightarrow> Config \<Rightarrow> error + UserInfo \<times> Config" where
  "checkBasicAuth_rv E h syscfg =
     (case base64_DecodeString E (drop (length ''Basic '') h) of
        Inl err \<Rightarrow> Inl err
      | Inr basicAuth \<Rightarrow>
          (case getUserPasswordFromBasicAuth basicAuth of
             (username, password) \<Rightarrow>
               if length username = 0 \<or> length password = 0
               then Inl (errors_New ''Missing username or password.'')
               else
                 let usrcfg0 = Config_zero\<lparr>Host := Host syscfg,
                                 APIPath := APIPath syscfg, Prefix := Prefix syscfg,
                                 Username := username, Password := password\<rparr>;
                     usrcfg = usrcfg0\<lparr>TLSClientConfig :=
                                (TLSClientConfig usrcfg0)
                                  \<lparr>CertData := CertData (TLSClientConfig syscfg)\<rparr>\<rparr>
                 in (case ClientSet E usrcfg of
                       Some err \<Rightarrow> Inl err
                     | None \<Rightarrow>
                         (case ServerVersion E usrcfg of
                            Some err \<Rightarrow> Inl err
                          | None \<Rightarrow>
                              Inr (\<lparr>UserInfo_Username = username, UserInfo_UID = [],
                                    UserInfo_Groups = []\<rparr>, usrcfg)))))"

definition authenticate_rv :: "env \<Rightarrow> Ctx \<Rightarrow> Config \<Rightarrow> error + Ctx" where
  "authenticate_rv E ctx syscfg =
     (case metadata_FromContext ctx of
        None \<Rightarrow> Inl (errors_New ''Missing metadata in context.'')
      | Some md \<Rightarrow>
          (let bind = (\<lambda>r. case r of
                         Inl err \<Rightarrow> Inl err
                       | Inr (user, usrcfg) \<Rightarrow>
                           let ctx1 = context_WithValue ctx kube_UserInfo
                                        (UserInfoVal user);
                               ctx2 = context_WithValue ctx1 kube_UserClientConfig
                                        (ConfigVal usrcfg);
                               ctx3 = context_WithValue ctx2 kube_SystemClientConfig
                                        (ConfigVal syscfg)
                           in Inr ctx3);
               certPath = bind (checkClientCert_rv ctx syscfg)
           in case md kube_Authorization of
                None \<Rightarrow> certPath
              | Some authHeader \<Rightarrow>
                  if length authHeader = 0 then certPath
                  else if authHeader ! 0 = [] then certPath
                  else if strings_HasPrefix (authHeader ! 0) ''Bearer ''
                  then bind (checkBearerAuth_rv E (authHeader ! 0) syscfg)
                  else if strings_HasPrefix (authHeader ! 0) ''Basic ''
                  then bind (checkBasicAuth_rv E (authHeader ! 0) syscfg)
                  else Inl (errors_New ''Unknown authorization scheme.'')))"

definition newUnaryInterceptor_rv ::
  "env \<Rightarrow> Config \<Rightarrow> Ctx \<Rightarrow> 'q \<Rightarrow> UnaryServerInfo \<Rightarrow> (Ctx \<Rightarrow> 'q \<Rightarrow> 'r)
     \<Rightarrow> error + 'r" where
  "newUnaryInterceptor_rv E syscfg ctx req info handler =
     (let continue = (case authenticate_rv E ctx syscfg of
                        Inl err \<Rightarrow> Inl err
                      | Inr ctx' \<Rightarrow> Inr (handler ctx' req))
      in case checkClientVersion E ctx of
           Some err \<Rightarrow>
             if snd (splitMethod (FullMethod info)) \<noteq> ''GetVersion'' then Inl err
             else continue
         | None \<Rightarrow> continue)"

definition newStreamInterceptor_rv ::
  "env \<Rightarrow> Config \<Rightarrow> 'v \<Rightarrow> ('m, 't) ServerStream \<Rightarrow> StreamServerInfo
     \<Rightarrow> ('v \<Rightarrow> ('m, 't) ServerStream \<Rightarrow> 'r) \<Rightarrow> error + 'r" where
  "newStreamInterceptor_rv E syscfg srv stream info handler =
     (let ctx = Context stream
      in case checkClientVersion E ctx of
           Some err \<Rightarrow> Inl err
         | None \<Rightarrow>
             (case authenticate_rv E ctx syscfg of
                Inl err \<Rightarrow> Inl err
              | Inr ctx' \<Rightarrow>
                  let newStream = \<lparr>w_ss = stream, w_ctx = ctx'\<rparr>
                  in Inr (handler srv (wrapper_ServerStream newStream))))"


section \<open>Storage factory (package storage)\<close>

text \<open>
  A call either returns, or ends the process (\<open>os.Exit\<close>), or panics (a failed type
  assertion, a constructor named \<open>OrDie\<close>).
\<close>

datatype 'a outcome = os_Exit nat | Panic | Return 'a

definition StorageMemory :: string where
  "StorageMemory = ''memory''"

definition StorageConfigMap :: string where
  "StorageConfigMap = ''configmap''"

definition StorageInlineTPR :: string where
  "StorageInlineTPR = ''inline-tpr''"

definition StorageObjectStoreTPR :: string where
  "StorageObjectStoreTPR = ''object-store-tpr''"

record StoreOptions =
  StoreType :: string
  ObjectStoreProvider :: string
  S3ConfigAccessKeyID :: string
  S3ConfigEndpoint :: string
  S3ConfigRegion :: string
  S3ConfigSecretKey :: string
  GCSConfigJSONKeyPath :: string
  GCSConfigProjectId :: string
  AzureConfigAccount :: string
  AzureConfigKey :: string
  SwiftConfigKey :: string
  SwiftConfigTenantAuthURL :: string
  SwiftConfigTenantName :: string
  SwiftConfigUsername :: string
  Container :: string
  StoragePrefix :: string

text \<open>
  The provider names and configuration keys of the object-store library (\<open>s3.Kind\<close>,
  \<open>s3.ConfigAccessKeyID\<close>, ...): string constants declared outside this repository,
  taken as a parameter.
\<close>

record stowConsts =
  s3_Kind :: string
  s3_ConfigAccessKeyID :: string
  s3_ConfigEndpoint :: string
  s3_ConfigRegion :: string
  s3_ConfigSecretKey :: string
  gcs_Kind :: string
  gcs_ConfigJSON :: string
  gcs_ConfigProjectId :: string
  azure_Kind :: string
  azure_ConfigAccount :: string
  azure_ConfigKey :: string
  swift_Kind :: string
  swift_ConfigKey :: string
  swift_ConfigTenantAuthURL :: string
  swift_ConfigTenantName :: string
  swift_ConfigUsername :: string

text \<open>
  An error of the cluster API carries a reason; \<open>kberrs.IsNotFound\<close> holds of an error
  whose reason is \<open>NotFound\<close>, and of no other error nor of \<open>nil\<close>.
\<close>

datatype StatusReason = StatusReasonNotFound | StatusReasonAlreadyExists | StatusReasonOther

datatype apiError = apiError (reason: StatusReason) (message: string)

definition kberrs_IsNotFound :: "apiError option \<Rightarrow> bool" where
  "kberrs_IsNotFound err =
     (case err of None \<Rightarrow> False | Some e \<Rightarrow> reason e = StatusReasonNotFound)"

record ThirdPartyResource =
  TypeMeta_APIVersion :: string
  TypeMeta_Kind :: string
  ObjectMeta_Name :: string
  Versions :: "string list"

text \<open>
  What the factory does to the world outside the process, in order: the calls to the
  cluster and to the object store, and the lines written to standard error.
\<close>

datatype event =
  ThirdPartyResources_Get_call string
  | ThirdPartyResources_Create_call ThirdPartyResource
  | stow_Dial_call string "string \<rightharpoonup> string"
  | Location_Container_call string
  | Stderr string

text \<open>
  What the factory calls and reads outside its own file: the client it is given
  (\<open>ClientConfig\<close>, \<open>ClientSet\<close> and the third-party-resource calls of that client set),
  the environment and the file system, \<open>strings.TrimSpace\<close>, the object-store library
  (with locations \<^typ>\<open>'l\<close> and containers \<^typ>\<open>'c\<close>), the constructor of the
  extensions client, and the constants \<open>GroupName\<close> of package \<open>api\<close> and
  \<open>DefaultTillerNamespace\<close> of package \<open>environment\<close>.
\<close>

record ('l, 'c) world =
  client_ClientConfig :: "error + Config"
  client_ClientSet :: "error option"
  ThirdPartyResources_Get :: "string \<Rightarrow> apiError option"
  ThirdPartyResources_Create :: "ThirdPartyResource \<Rightarrow> apiError option"
  os_Getenv :: "string \<Rightarrow> string"
  ioutil_ReadFile :: "string \<Rightarrow> error + string"
  strings_TrimSpace :: "string \<Rightarrow> string"
  stow_Dial :: "string \<Rightarrow> (string \<rightharpoonup> string) \<Rightarrow> error + 'l"
  Location_Container :: "'l \<Rightarrow> string \<Rightarrow> error + 'c"
  NewExtensionsForConfig :: "Config \<Rightarrow> error option"
  GroupName :: string
  DefaultTillerNamespace :: string
  stow :: stowConsts

text \<open>The drivers; a release or config-map client is the namespace it is bound to.\<close>

datatype 'c Driver =
  driver_NewMemory
  | driver_NewConfigMaps string
  | driver_NewReleases string
  | driver_NewObjectStoreReleases string 'c string

datatype 'c Storage = Init "'c Driver"

definition error_Error :: "error \<Rightarrow> string" where
  "error_Error e = (case e of errors_New m \<Rightarrow> m)"

definition newline :: string where
  "newline = [CHR 0x0A]"

text \<open>Sequencing: the second step runs only if the first one returns.\<close>

definition andThen ::
  "event list \<times> 'a outcome \<Rightarrow> ('a \<Rightarrow> event list \<times> 'b outcome)
     \<Rightarrow> event list \<times> 'b outcome" where
  "andThen m f =
     (case m of
        (t, Return a) \<Rightarrow> (case f a of (t', r) \<Rightarrow> (t @ t', r))
      | (t, os_Exit n) \<Rightarrow> (t, os_Exit n)
      | (t, Panic) \<Rightarrow> (t, Panic))"

definition V1alpha1SchemeGroupVersion_Version :: string where
  "V1alpha1SchemeGroupVersion_Version = ''v1alpha1''"

definition namespace :: "('l, 'c) world \<Rightarrow> string" where
  "namespace W =
     (let ns = os_Getenv W ''TILLER_NAMESPACE''
      in if ns \<noteq> [] then ns
         else (case ioutil_ReadFile W
                      ''/var/run/secrets/kubernetes.io/serviceaccount/namespace'' of
                 Inr data \<Rightarrow>
                   (let ns' = strings_TrimSpace W data
                    in if length ns' > 0 then ns' else DefaultTillerNamespace W)
               | Inl err \<Rightarrow> DefaultTillerNamespace W))"

definition ensureResource :: "('l, 'c) world \<Rightarrow> event list \<times> unit outcome" where
  "ensureResource W =
     (let name = ''release.'' @ GroupName W;
          err = ThirdPartyResources_Get W name
      in if kberrs_IsNotFound err
         then
           (let tpr = \<lparr>TypeMeta_APIVersion = ''extensions/v1alpha1'',
                        TypeMeta_Kind = ''ThirdPartyResource'',
                        ObjectMeta_Name = ''release.'' @ GroupName W,
                        Versions = [V1alpha1SchemeGroupVersion_Version]\<rparr>
            in case ThirdPartyResources_Create W tpr of
                 Some err' \<Rightarrow>
                   ([ThirdPartyResources_Get_call name,
                     ThirdPartyResources_Create_call tpr,
                     Stderr (''Failed to create third party resource: ''
                             @ message err' @ newline)],
                    os_Exit 1)
               | None \<Rightarrow>
                   ([ThirdPartyResources_Get_call name,
                     ThirdPartyResources_Create_call tpr],
                    Return ()))
         else ([ThirdPartyResources_Get_call name], Return ()))"

text \<open>
  The inner \<open>switch opts.ObjectStoreProvider\<close> of \<open>NewStorage\<close>: the configuration map
  handed to the object-store library. A Go \<open>switch\<close> takes the first case that is equal.
\<close>

definition setIfNonEmpty ::
  "(string \<rightharpoonup> string) \<Rightarrow> string \<Rightarrow> string \<Rightarrow> (string \<rightharpoonup> string)" where
  "setIfNonEmpty m k v = (if v \<noteq> [] then m(k \<mapsto> v) else m)"

definition NewStorage_stowCfg ::
  "('l, 'c) world \<Rightarrow> StoreOptions \<Rightarrow> event list \<times> (string \<rightharpoonup> string) outcome" where
  "NewStorage_stowCfg W opts =
     (let K = stow W; stowCfg = Map.empty
      in if ObjectStoreProvider opts = s3_Kind K then
           ([], Return
              (setIfNonEmpty
                 (setIfNonEmpty
                    (setIfNonEmpty
                       (setIfNonEmpty stowCfg
                          (s3_ConfigAccessKeyID K) (S3ConfigAccessKeyID opts))
                       (s3_ConfigEndpoint K) (S3ConfigEndpoint opts))
                    (s3_ConfigRegion K) (S3ConfigRegion opts))
                 (s3_ConfigSecretKey K) (S3ConfigSecretKey opts)))
         else if ObjectStoreProvider opts = gcs_Kind K then
           andThen
             (if GCSConfigJSONKeyPath opts \<noteq> []
              then (case ioutil_ReadFile W (GCSConfigJSONKeyPath opts) of
                      Inl err \<Rightarrow>
                        ([Stderr (''Cannot read json key file: '' @ error_Error err
                                  @ newline)],
                         os_Exit 1)
                    | Inr jsonKey \<Rightarrow> ([], Return (stowCfg(gcs_ConfigJSON K \<mapsto> jsonKey))))
              else ([], Return stowCfg))
             (\<lambda>cfg1. ([], Return
                (setIfNonEmpty cfg1 (gcs_ConfigProjectId K) (GCSConfigProjectId opts))))
         else if ObjectStoreProvider opts = azure_Kind K then
           ([], Return
              (setIfNonEmpty
                 (setIfNonEmpty stowCfg
                    (azure_ConfigAccount K) (AzureConfigAccount opts))
                 (azure_ConfigKey K) (AzureConfigKey opts)))
         else if ObjectStoreProvider opts = swift_Kind K then
           ([], Return
              (setIfNonEmpty
                 (setIfNonEmpty
                    (setIfNonEmpty
                       (setIfNonEmpty stowCfg
                          (swift_ConfigKey K) (SwiftConfigKey opts))
                       (swift_ConfigTenantAuthURL K) (SwiftConfigTenantAuthURL opts))
                    (swift_ConfigTenantName K) (SwiftConfigTenantName opts))
                 (swift_ConfigUsername K) (SwiftConfigUsername opts)))
         else
           ([Stderr (''Unknown provider: '' @ ObjectStoreProvider opts @ newline)],
            os_Exit 1))"

definition NewExtensionsForConfigOrDie ::
  "('l, 'c) world \<Rightarrow> Config \<Rightarrow> event list \<times> unit outcome" where
  "NewExtensionsForConfigOrDie W c =
     (case NewExtensionsForConfig W c of Some err \<Rightarrow> ([], Panic) | None \<Rightarrow> ([], Return ()))"

definition NewStorage ::
  "('l, 'c) world \<Rightarrow> StoreOptions \<Rightarrow> event list \<times> (error + 'c Storage) outcome" where
  "NewStorage W opts =
     (case client_ClientConfig W of
        Inl err \<Rightarrow>
          ([Stderr (''Cannot initialize Kubernetes connection: '' @ error_Error err
                    @ newline)],
           os_Exit 1)
      | Inr clientcfg \<Rightarrow>
          (case client_ClientSet W of
             Some err \<Rightarrow>
               ([Stderr (''Cannot initialize Kubernetes connection: '' @ error_Error err
                         @ newline)],
                os_Exit 1)
           | None \<Rightarrow>
               if StoreType opts = StorageMemory then
                 ([], Return (Inr (Init driver_NewMemory)))
               else if StoreType opts = StorageConfigMap then
                 ([], Return (Inr (Init (driver_NewConfigMaps (namespace W)))))
               else if StoreType opts = StorageInlineTPR then
                 andThen (ensureResource W) (\<lambda>_.
                 andThen (NewExtensionsForConfigOrDie W clientcfg) (\<lambda>_.
                   ([], Return (Inr (Init (driver_NewReleases (namespace W)))))))
               else if StoreType opts = StorageObjectStoreTPR then
                 andThen (ensureResource W) (\<lambda>_.
                 andThen (NewStorage_stowCfg W opts) (\<lambda>stowCfg.
                 andThen
                   (case stow_Dial W (ObjectStoreProvider opts) stowCfg of
                      Inl err \<Rightarrow>
                        ([stow_Dial_call (ObjectStoreProvider opts) stowCfg,
                          Stderr (''Cannot connect to object store: ''
                                  @ error_Error err @ newline)],
                         os_Exit 1)
                    | Inr loc \<Rightarrow>
                        ([stow_Dial_call (ObjectStoreProvider opts) stowCfg], Return loc))
                   (\<lambda>loc.
                 andThen
                   (case Location_Container W loc (Container opts) of
                      Inl err \<Rightarrow>
                        ([Location_Container_call (Container opts),
                          Stderr (''Cannot find container: '' @ error_Error err
                                  @ newline)],
                         os_Exit 1)
                    | Inr c \<Rightarrow> ([Location_Container_call (Container opts)], Return c))
                   (\<lambda>c.
                 andThen (NewExtensionsForConfigOrDie W clientcfg) (\<lambda>_.
                   ([], Return (Inr (Init (driver_NewObjectStoreReleases (namespace W) c
                                             (StoragePrefix opts))))))))))
               else
                 ([], Return (Inl (errors_New (''Unknow store type '' @ StoreType opts))))))"


section \<open>The fake release client (client/clientset/fake/release.go)\<close>

text \<open>
  Modelled from the spec: the release resource of package \<open>api\<close> (section 3: a release
  is identified by namespace and name and carries a label mapping, a revision token and
  an opaque payload, here of type \<^typ>\<open>'p\<close>); a release list holds list metadata and
  the items.
\<close>

record 'p Release =
  Release_Namespace :: string
  Release_Name :: string
  Release_Labels :: "string \<rightharpoonup> string"
  Release_ResourceVersion :: string
  Release_Payload :: 'p

record 'p ReleaseList =
  ListMeta_ResourceVersion :: string
  Items :: "'p Release list"

text \<open>
  A label selector of the cluster library is an interface whose method \<open>Matches\<close>
  decides a label set. Its standard implementation is a sequence of requirements, all
  of which must hold; \<open>labels.Everything()\<close> is the selector with no requirement. A
  requirement is taken as the predicate it decides.
\<close>

type_synonym Requirement = "(string \<rightharpoonup> string) \<Rightarrow> bool"

type_synonym Selector = "Requirement list"

definition labels_Matches :: "Selector \<Rightarrow> (string \<rightharpoonup> string) \<Rightarrow> bool" where
  "labels_Matches sel ls = list_all (\<lambda>r. r ls) sel"

definition labels_Everything :: Selector where
  "labels_Everything = []"

record ListOptions =
  LabelSelector :: "Selector option"
  ListOptions_ResourceVersion :: string

definition ExtractFromListOptions :: "ListOptions \<Rightarrow> Selector option \<times> string" where
  "ExtractFromListOptions opts = (LabelSelector opts, ListOptions_ResourceVersion opts)"

record GroupVersionResource =
  gvr_Group :: string
  gvr_Version :: string
  gvr_Resource :: string

definition resource :: GroupVersionResource where
  "resource = \<lparr>gvr_Group = ''helm.sh'', gvr_Version = ''v1alpha1'',
                gvr_Resource = ''releases''\<rparr>"

datatype Action = NewListAction GroupVersionResource string ListOptions

text \<open>A \<open>runtime.Object\<close> the fake hands back: a release or a release list.\<close>

datatype 'p Object = ReleaseObject "'p Release" | ReleaseListObject "'p ReleaseList"

record 'p FakeRelease =
  Fake_Invokes :: "Action \<Rightarrow> 'p Object option \<times> error option"
  mock_ns :: string

text \<open>
  The loop of \<open>List\<close> appends, in order, every item the selector matches to the empty
  list of a fresh \<open>ReleaseList\<close>.
\<close>

fun List_loop ::
  "Selector \<Rightarrow> 'p Release list \<Rightarrow> 'p Release list \<Rightarrow> 'p Release list" where
  "List_loop label [] acc = acc"
| "List_loop label (item # items) acc =
     (if labels_Matches label (Release_Labels item)
      then List_loop label items (acc @ [item])
      else List_loop label items acc)"

definition FakeRelease_List ::
  "'p FakeRelease \<Rightarrow> ListOptions \<Rightarrow> ('p ReleaseList option \<times> error option) outcome" where
  "FakeRelease_List mock opts =
     (case Fake_Invokes mock (NewListAction resource (mock_ns mock) opts) of
        (None, err) \<Rightarrow> Return (None, err)
      | (Some obj, err) \<Rightarrow>
          (let label = (case fst (ExtractFromListOptions opts) of
                          None \<Rightarrow> labels_Everything
                        | Some l \<Rightarrow> l)
           in case obj of
                ReleaseObject r \<Rightarrow> Panic
              | ReleaseListObject rl \<Rightarrow>
                  Return (Some \<lparr>ListMeta_ResourceVersion = [],
                                 Items = List_loop label (Items rl) []\<rparr>, err)))"


section \<open>Concrete calls\<close>

text \<open>
  A system configuration, a cluster that accepts the version \<open>2.2.0\<close>, the token
  \<open>tok123\<close> (of \<open>bob\<close>) and the credentials \<open>alice:s3cret\<close>, and calls that reach the
  gateway: with a verified client certificate of \<open>alice\<close>, without transport metadata,
  with a given authorization header, and with an old client version.
\<close>

definition syscfg0 :: Config where
  "syscfg0 =
     \<lparr>Host = ''https://10.0.0.1:443'', APIPath = ''/api'', Prefix = [], Username = [],
      Password = [], BearerToken = ''system-token'', Impersonate = [],
      TLSClientConfig = \<lparr>CertData = ''CERT'', KeyData = ''KEY'', CAData = ''CA''\<rparr>,
      Insecure = False, UserAgent = ''tiller''\<rparr>"

definition bob :: UserInfo where
  "bob = \<lparr>UserInfo_Username = ''bob'', UserInfo_UID = ''42'',
           UserInfo_Groups = [''dev'']\<rparr>"

definition env0 :: env where
  "env0 =
     \<lparr>version_IsCompatible = (\<lambda>c s. c = s),
      version_Version = ''2.2.0'',
      base64_DecodeString =
        (\<lambda>s. if s = ''YWxpY2U6czNjcmV0'' then Inr ''alice:s3cret''
             else if s = ''bWFsbG9yeTp4'' then Inr ''mallory:x''
             else if s = ''bm9jb2xvbg=='' then Inr ''nocolon''
             else Inl (errors_New ''illegal base64 data at input byte 0'')),
      ClientSet = (\<lambda>c. if Host c = [] then Some (errors_New ''host must be a URL'')
                         else None),
      TokenReviews_Create =
        (\<lambda>c tok. Inr \<lparr>Authenticated = (tok = ''tok123''), User = bob\<rparr>),
      ServerVersion =
        (\<lambda>c. if Username c = ''alice'' \<and> Password c = ''s3cret'' then None
             else Some (errors_New ''Unauthorized''))\<rparr>"

definition peer_alice :: Peer where
  "peer_alice = \<lparr>Peer_AuthInfo = TLSInfo [[\<lparr>Subject_CommonName = ''alice''\<rparr>]]\<rparr>"

definition ctx_cert :: Ctx where
  "ctx_cert =
     \<lparr>ctx_metadata = Some [''x-helm-api-client'' \<mapsto> [''2.2.0'']],
      ctx_peer = Some peer_alice, ctx_values = Map.empty\<rparr>"

definition ctx_nomd :: Ctx where
  "ctx_nomd = \<lparr>ctx_metadata = None, ctx_peer = Some peer_alice, ctx_values = Map.empty\<rparr>"

definition ctx_hdr :: "string \<Rightarrow> Ctx" where
  "ctx_hdr h =
     \<lparr>ctx_metadata = Some [''x-helm-api-client'' \<mapsto> [''2.2.0''],
                            ''authorization'' \<mapsto> [h]],
      ctx_peer = None, ctx_values = Map.empty\<rparr>"

definition ctx_old :: Ctx where
  "ctx_old =
     \<lparr>ctx_metadata = Some [''x-helm-api-client'' \<mapsto> [''1.0.0'']],
      ctx_peer = Some peer_alice, ctx_values = Map.empty\<rparr>"

definition stream_of :: "Ctx \<Rightarrow> (string, string list) ServerStream" where
  "stream_of c =
     \<lparr>Context = c,
      RecvMsg = (\<lambda>m t. (case t of [] \<Rightarrow> ((Some (errors_New ''EOF''), m), [])
                                 | x # xs \<Rightarrow> ((None, x), xs))),
      SendMsg = (\<lambda>m t. (None, t @ [m])),
      SendHeader = (\<lambda>md t. (None, t)),
      SetHeader = (\<lambda>md t. (None, t)),
      SetTrailer = (\<lambda>md t. t)\<rparr>"

definition GetVersion_info :: UnaryServerInfo where
  "GetVersion_info = \<lparr>FullMethod = ''/hapi.services.tiller.ReleaseService/GetVersion''\<rparr>"

definition ListReleases_info :: UnaryServerInfo where
  "ListReleases_info =
     \<lparr>FullMethod = ''/hapi.services.tiller.ReleaseService/ListReleases''\<rparr>"

definition ListReleases_stream_info :: StreamServerInfo where
  "ListReleases_stream_info =
     \<lparr>StreamServerInfo_FullMethod =
        ''/hapi.services.tiller.ReleaseService/ListReleases''\<rparr>"


text \<open>
  Releases with a \<open>tier\<close> label, the selector \<open>tier = web\<close>, and a fake whose
  reaction to a list action is a list of three releases.
\<close>

definition release_of :: "string \<Rightarrow> string \<Rightarrow> unit Release" where
  "release_of name tier =
     \<lparr>Release_Namespace = ''default'', Release_Name = name,
      Release_Labels = [''tier'' \<mapsto> tier], Release_ResourceVersion = ''1'',
      Release_Payload = ()\<rparr>"

definition tier_web :: Selector where
  "tier_web = [\<lambda>ls. ls ''tier'' = Some ''web'']"

definition mock0 :: "unit FakeRelease" where
  "mock0 =
     \<lparr>Fake_Invokes =
        (\<lambda>a. (Some (ReleaseListObject
                  \<lparr>ListMeta_ResourceVersion = ''7'',
                   Items = [release_of ''a'' ''web'', release_of ''b'' ''db'',
                            release_of ''c'' ''web'']\<rparr>), None)),
      mock_ns = ''default''\<rparr>"

text \<open>
  The provider names and keys as the object-store library declares them; a world in
  which the cluster is reachable and holds the release resource type; variants of it
  in which the client set cannot be built, in which the resource type is absent, and
  in which the lookup reports the resource type absent while its creation reports that
  it already exists.
\<close>

definition stow0 :: stowConsts where
  "stow0 =
     \<lparr>s3_Kind = ''s3'', s3_ConfigAccessKeyID = ''access_key_id'',
      s3_ConfigEndpoint = ''endpoint'', s3_ConfigRegion = ''region'',
      s3_ConfigSecretKey = ''secret_key'',
      gcs_Kind = ''google'', gcs_ConfigJSON = ''json'', gcs_ConfigProjectId = ''project_id'',
      azure_Kind = ''azure'', azure_ConfigAccount = ''account'', azure_ConfigKey = ''key'',
      swift_Kind = ''swift'', swift_ConfigKey = ''key'',
      swift_ConfigTenantAuthURL = ''tenant_auth_url'',
      swift_ConfigTenantName = ''tenant_name'', swift_ConfigUsername = ''username''\<rparr>"

definition world0 :: "(string, string) world" where
  "world0 =
     \<lparr>client_ClientConfig = Inr syscfg0,
      client_ClientSet = None,
      ThirdPartyResources_Get = (\<lambda>n. None),
      ThirdPartyResources_Create = (\<lambda>t. None),
      os_Getenv = (\<lambda>k. if k = ''TILLER_NAMESPACE'' then ''tiller-ns'' else []),
      ioutil_ReadFile = (\<lambda>f. Inl (errors_New ''no such file or directory'')),
      strings_TrimSpace = (\<lambda>x. x),
      stow_Dial = (\<lambda>kind c. Inr kind),
      Location_Container = (\<lambda>l c. Inr c),
      NewExtensionsForConfig = (\<lambda>c. None),
      GroupName = ''helm.sh'',
      DefaultTillerNamespace = ''kube-system'',
      stow = stow0\<rparr>"

definition world_noclient :: "(string, string) world" where
  "world_noclient = world0\<lparr>client_ClientSet := Some (errors_New ''no kubeconfig'')\<rparr>"

definition world_absent :: "(string, string) world" where
  "world_absent =
     world0\<lparr>ThirdPartyResources_Get :=
              (\<lambda>n. Some (apiError StatusReasonNotFound ''not found''))\<rparr>"

definition world_race :: "(string, string) world" where
  "world_race =
     world0\<lparr>ThirdPartyResources_Get :=
              (\<lambda>n. Some (apiError StatusReasonNotFound ''not found'')),
            ThirdPartyResources_Create :=
              (\<lambda>t. Some (apiError StatusReasonAlreadyExists ''already exists''))\<rparr>"

definition opts0 :: StoreOptions where
  "opts0 =
     \<lparr>StoreType = [], ObjectStoreProvider = [], S3ConfigAccessKeyID = [],
      S3ConfigEndpoint = [], S3ConfigRegion = [], S3ConfigSecretKey = [],
      GCSConfigJSONKeyPath = [], GCSConfigProjectId = [], AzureConfigAccount = [],
      AzureConfigKey = [], SwiftConfigKey = [], SwiftConfigTenantAuthURL = [],
      SwiftConfigTenantName = [], SwiftConfigUsername = [], Container = [],
      StoragePrefix = []\<rparr>"

definition opts_s3 :: StoreOptions where
  "opts_s3 =
     opts0\<lparr>StoreType := ''object-store-tpr'', ObjectStoreProvider := ''s3'',
           S3ConfigAccessKeyID := ''AKIA'', S3ConfigSecretKey := ''shh'',
           S3ConfigRegion := ''us-east-1'', Container := ''releases'',
           StoragePrefix := ''helm''\<rparr>"


section \<open>Properties of the gateway\<close>

subsection \<open>Splitting strings\<close>

lemma strings_Index_append:
  "c \<notin> set u \<Longrightarrow> strings_Index (u @ c # p) c = Some (length u)"
  by (induction u) auto

lemma strings_Index_None:
  "c \<notin> set t \<Longrightarrow> strings_Index t c = None"
  by (induction t) auto

lemma SplitN2_sep:
  "c \<notin> set u \<Longrightarrow> strings_SplitN (u @ c # p) c 2 = [u, p]"
  by (simp add: numeral_2_eq_2 strings_Index_append)

lemma SplitN2_nosep:
  "c \<notin> set t \<Longrightarrow> strings_SplitN t c 2 = [t]"
  by (simp add: numeral_2_eq_2 strings_Index_None)

lemma getUserPassword_split:
  "CHR '':'' \<notin> set u \<Longrightarrow> getUserPasswordFromBasicAuth (u @ CHR '':'' # p) = (u, p)"
  by (simp add: getUserPasswordFromBasicAuth_def SplitN2_sep)

lemma getUserPassword_nocolon:
  "CHR '':'' \<notin> set t \<Longrightarrow> getUserPasswordFromBasicAuth t = ([], [])"
  by (simp add: getUserPasswordFromBasicAuth_def SplitN2_nosep)

lemma strings_HasPrefix_iff:
  "strings_HasPrefix s p \<longleftrightarrow> (\<exists>r. s = p @ r)"
proof
  assume "strings_HasPrefix s p"
  then have "take (length p) s = p"
    by (simp add: strings_HasPrefix_def)
  then have "s = p @ drop (length p) s"
    by (metis append_take_drop_id)
  then show "\<exists>r. s = p @ r" ..
next
  assume "\<exists>r. s = p @ r"
  then show "strings_HasPrefix s p"
    by (auto simp: strings_HasPrefix_def)
qed

lemma Basic_not_Bearer:
  "strings_HasPrefix h ''Basic '' \<Longrightarrow> \<not> strings_HasPrefix h ''Bearer ''"
  by (auto simp: strings_HasPrefix_iff)

text \<open>
  C10. Basic-credential parsing splits the decoded payload at the first colon only: a
  user name without a colon and any password (colons included) come back unchanged; a
  payload without a colon parses to an empty user name and an empty password, and the
  basic verifier of either variant rejects it.
\<close>

theorem getUserPasswordFromBasicAuth_first_colon:
  "(CHR '':'' \<notin> set u \<longrightarrow> getUserPasswordFromBasicAuth (u @ '':'' @ p) = (u, p))
   \<and> (CHR '':'' \<notin> set t \<longrightarrow> getUserPasswordFromBasicAuth t = ([], []))
   \<and> (CHR '':'' \<notin> set t \<and> base64_DecodeString E (drop (length ''Basic '') h) = Inr t \<longrightarrow>
        checkBasicAuth E ctx h syscfg
          = (ctx, Some (errors_New ''Missing username or password.''))
        \<and> checkBasicAuth_rv E h syscfg
          = Inl (errors_New ''Missing username or password.''))"
  by (simp add: getUserPassword_split getUserPassword_nocolon checkBasicAuth_def
      checkBasicAuth_rv_def)

theorem getUserPasswordFromBasicAuth_first_colon_witness:
  "getUserPasswordFromBasicAuth ''alice:s3:cr:et'' = (''alice'', ''s3:cr:et'')
   \<and> getUserPasswordFromBasicAuth ''nocolon'' = ([], [])
   \<and> checkBasicAuth env0 ctx_cert ''Basic bm9jb2xvbg=='' syscfg0
        = (ctx_cert, Some (errors_New ''Missing username or password.''))
   \<and> checkBasicAuth_rv env0 ''Basic bm9jb2xvbg=='' syscfg0
        = Inl (errors_New ''Missing username or password.'')"
  using getUserPasswordFromBasicAuth_first_colon
          [of "''alice''" "''s3:cr:et''" "''nocolon''" env0 "''Basic bm9jb2xvbg==''"
              ctx_cert syscfg0]
  by (simp add: env0_def)

text \<open>
  C9. The stream wrapper answers the context accessor with the context it holds; each
  other operation is the same operation of the stream it wraps, on the same arguments
  and the same transport state.
\<close>

theorem serverStreamWrapper_delegates:
  "wrapper_Context \<lparr>w_ss = s, w_ctx = c\<rparr> = c
   \<and> wrapper_RecvMsg \<lparr>w_ss = s, w_ctx = c\<rparr> msg t = RecvMsg s msg t
   \<and> wrapper_SendMsg \<lparr>w_ss = s, w_ctx = c\<rparr> msg t = SendMsg s msg t
   \<and> wrapper_SendHeader \<lparr>w_ss = s, w_ctx = c\<rparr> md t = SendHeader s md t
   \<and> wrapper_SetHeader \<lparr>w_ss = s, w_ctx = c\<rparr> md t = SetHeader s md t
   \<and> wrapper_SetTrailer \<lparr>w_ss = s, w_ctx = c\<rparr> md t = SetTrailer s md t
   \<and> wrapper_ServerStream \<lparr>w_ss = s, w_ctx = c\<rparr> = s\<lparr>Context := c\<rparr>"
  by (simp add: wrapper_Context_def wrapper_RecvMsg_def wrapper_SendMsg_def
      wrapper_SendHeader_def wrapper_SetHeader_def wrapper_SetTrailer_def
      wrapper_ServerStream_def fun_eq_iff)


subsection \<open>Dispatch\<close>

lemma authenticate_no_metadata:
  "metadata_FromContext ctx = None \<Longrightarrow>
     authenticate E ctx syscfg = Inl (errors_New ''Missing metadata in context.'')"
  by (simp add: authenticate_def)

lemma authenticate_bearer:
  assumes "metadata_FromContext ctx = Some md"
    and "md kube_Authorization = Some (h # hs)"
    and "strings_HasPrefix h ''Bearer ''"
  shows "authenticate E ctx syscfg =
           (case snd (checkBearerAuth E ctx h syscfg) of
              Some err \<Rightarrow> Inl err | None \<Rightarrow> Inr ctx)"
proof -
  from assms(3) have "h \<noteq> []"
    by (auto simp: strings_HasPrefix_iff)
  with assms show ?thesis
    by (simp add: authenticate_def)
qed

lemma authenticate_basic:
  assumes "metadata_FromContext ctx = Some md"
    and "md kube_Authorization = Some (h # hs)"
    and "strings_HasPrefix h ''Basic ''"
  shows "authenticate E ctx syscfg =
           (case snd (checkBasicAuth E ctx h syscfg) of
              Some err \<Rightarrow> Inl err | None \<Rightarrow> Inr ctx)"
proof -
  from assms(3) have "h \<noteq> []"
    by (auto simp: strings_HasPrefix_iff)
  moreover from assms(3) have "\<not> strings_HasPrefix h ''Bearer ''"
    by (rule Basic_not_Bearer)
  ultimately show ?thesis
    using assms by (simp add: authenticate_def)
qed

text \<open>
  C3. Dispatch over the header material is exhaustive. Without transport metadata the
  call fails with the missing-metadata error whatever the verifiers would answer. With
  metadata, an authorization header that is absent, has no value, or whose first value
  is empty gives the outcome of the certificate verifier; a first value with the prefix
  \<open>Bearer \<close> gives the outcome of the bearer verifier on that value; one with the
  prefix \<open>Basic \<close> gives the outcome of the basic verifier; any other non-empty first
  value fails with the unknown-scheme error.
\<close>

theorem authenticate_dispatch:
  "(metadata_FromContext ctx = None \<longrightarrow>
      authenticate E ctx syscfg = Inl (errors_New ''Missing metadata in context.''))
   \<and> (metadata_FromContext ctx = Some md
        \<and> (md kube_Authorization = None \<or> md kube_Authorization = Some []
             \<or> md kube_Authorization = Some ([] # hs)) \<longrightarrow>
      authenticate E ctx syscfg =
        (case snd (checkClientCert ctx syscfg) of
           Some err \<Rightarrow> Inl err | None \<Rightarrow> Inr ctx))
   \<and> (metadata_FromContext ctx = Some md \<and> md kube_Authorization = Some (h # hs)
        \<and> strings_HasPrefix h ''Bearer '' \<longrightarrow>
      authenticate E ctx syscfg =
        (case snd (checkBearerAuth E ctx h syscfg) of
           Some err \<Rightarrow> Inl err | None \<Rightarrow> Inr ctx))
   \<and> (metadata_FromContext ctx = Some md \<and> md kube_Authorization = Some (h # hs)
        \<and> strings_HasPrefix h ''Basic '' \<longrightarrow>
      authenticate E ctx syscfg =
        (case snd (checkBasicAuth E ctx h syscfg) of
           Some err \<Rightarrow> Inl err | None \<Rightarrow> Inr ctx))
   \<and> (metadata_FromContext ctx = Some md \<and> md kube_Authorization = Some (h # hs)
        \<and> h \<noteq> [] \<and> \<not> strings_HasPrefix h ''Bearer ''
        \<and> \<not> strings_HasPrefix h ''Basic '' \<longrightarrow>
      authenticate E ctx syscfg = Inl (errors_New ''Unknown authorization scheme.''))"
proof (intro conjI impI)
  assume "metadata_FromContext ctx = None"
  then show "authenticate E ctx syscfg = Inl (errors_New ''Missing metadata in context.'')"
    by (rule authenticate_no_metadata)
next
  assume "metadata_FromContext ctx = Some md
        \<and> (md kube_Authorization = None \<or> md kube_Authorization = Some []
             \<or> md kube_Authorization = Some ([] # hs))"
  then show "authenticate E ctx syscfg =
        (case snd (checkClientCert ctx syscfg) of
           Some err \<Rightarrow> Inl err | None \<Rightarrow> Inr ctx)"
    by (auto simp: authenticate_def)
next
  assume "metadata_FromContext ctx = Some md \<and> md kube_Authorization = Some (h # hs)
        \<and> strings_HasPrefix h ''Bearer ''"
  then show "authenticate E ctx syscfg =
        (case snd (checkBearerAuth E ctx h syscfg) of
           Some err \<Rightarrow> Inl err | None \<Rightarrow> Inr ctx)"
    using authenticate_bearer by blast
next
  assume "metadata_FromContext ctx = Some md \<and> md kube_Authorization = Some (h # hs)
        \<and> strings_HasPrefix h ''Basic ''"
  then show "authenticate E ctx syscfg =
        (case snd (checkBasicAuth E ctx h syscfg) of
           Some err \<Rightarrow> Inl err | None \<Rightarrow> Inr ctx)"
    using authenticate_basic by blast
next
  assume "metadata_FromContext ctx = Some md \<and> md kube_Authorization = Some (h # hs)
        \<and> h \<noteq> [] \<and> \<not> strings_HasPrefix h ''Bearer ''
        \<and> \<not> strings_HasPrefix h ''Basic ''"
  then show "authenticate E ctx syscfg = Inl (errors_New ''Unknown authorization scheme.'')"
    by (simp add: authenticate_def)
qed

lemma HasPrefix_Bearer_tok: "strings_HasPrefix ''Bearer tok123'' ''Bearer ''"
  by (simp add: strings_HasPrefix_def)

lemma HasPrefix_Basic_alice: "strings_HasPrefix ''Basic YWxpY2U6czNjcmV0'' ''Basic ''"
  by (simp add: strings_HasPrefix_def)

lemma not_HasPrefix_Digest:
  "\<not> strings_HasPrefix ''Digest abc'' ''Bearer '' \<and> \<not> strings_HasPrefix ''Digest abc'' ''Basic ''"
  by (simp add: strings_HasPrefix_def)

lemma ctx_hdr_md:
  "metadata_FromContext (ctx_hdr h)
     = Some [''x-helm-api-client'' \<mapsto> [''2.2.0''], ''authorization'' \<mapsto> [h]]"
  by (simp add: metadata_FromContext_def ctx_hdr_def)

theorem authenticate_dispatch_witness:
  "authenticate env0 ctx_nomd syscfg0 = Inl (errors_New ''Missing metadata in context.'')
   \<and> authenticate env0 ctx_cert syscfg0 = Inr ctx_cert
   \<and> authenticate env0 (ctx_hdr '''') syscfg0 = Inl (errors_New ''No peer found!'')
   \<and> authenticate env0 (ctx_hdr ''Bearer tok123'') syscfg0 = Inr (ctx_hdr ''Bearer tok123'')
   \<and> authenticate env0 (ctx_hdr ''Basic YWxpY2U6czNjcmV0'') syscfg0
        = Inr (ctx_hdr ''Basic YWxpY2U6czNjcmV0'')
   \<and> authenticate env0 (ctx_hdr ''Digest abc'') syscfg0
        = Inl (errors_New ''Unknown authorization scheme.'')"
proof (intro conjI)
  show "authenticate env0 ctx_nomd syscfg0 = Inl (errors_New ''Missing metadata in context.'')"
    using authenticate_dispatch [of ctx_nomd env0 syscfg0]
    by (simp add: metadata_FromContext_def ctx_nomd_def)
next
  have "metadata_FromContext ctx_cert = Some [''x-helm-api-client'' \<mapsto> [''2.2.0'']]"
    by (simp add: metadata_FromContext_def ctx_cert_def)
  then have "authenticate env0 ctx_cert syscfg0 =
        (case snd (checkClientCert ctx_cert syscfg0) of
           Some err \<Rightarrow> Inl err | None \<Rightarrow> Inr ctx_cert)"
    using authenticate_dispatch
            [of ctx_cert env0 syscfg0 "[''x-helm-api-client'' \<mapsto> [''2.2.0'']]"]
    by (simp add: kube_Authorization_def)
  then show "authenticate env0 ctx_cert syscfg0 = Inr ctx_cert"
    by (simp add: checkClientCert_def peer_FromContext_def ctx_cert_def peer_alice_def Let_def)
next
  have "authenticate env0 (ctx_hdr '''') syscfg0 =
        (case snd (checkClientCert (ctx_hdr '''') syscfg0) of
           Some err \<Rightarrow> Inl err | None \<Rightarrow> Inr (ctx_hdr ''''))"
    using authenticate_dispatch
            [of "ctx_hdr ''''" env0 syscfg0
                "[''x-helm-api-client'' \<mapsto> [''2.2.0''], ''authorization'' \<mapsto> ['''']]" "[]"]
    by (simp add: kube_Authorization_def ctx_hdr_md)
  then show "authenticate env0 (ctx_hdr '''') syscfg0 = Inl (errors_New ''No peer found!'')"
    by (simp add: checkClientCert_def peer_FromContext_def ctx_hdr_def)
next
  have "authenticate env0 (ctx_hdr ''Bearer tok123'') syscfg0 =
        (case snd (checkBearerAuth env0 (ctx_hdr ''Bearer tok123'') ''Bearer tok123'' syscfg0) of
           Some err \<Rightarrow> Inl err | None \<Rightarrow> Inr (ctx_hdr ''Bearer tok123''))"
    using authenticate_dispatch
            [of "ctx_hdr ''Bearer tok123''" env0 syscfg0
                "[''x-helm-api-client'' \<mapsto> [''2.2.0''],
                  ''authorization'' \<mapsto> [''Bearer tok123'']]"
                "[]" "''Bearer tok123''"]
          HasPrefix_Bearer_tok
    by (simp add: kube_Authorization_def ctx_hdr_md)
  then show "authenticate env0 (ctx_hdr ''Bearer tok123'') syscfg0
               = Inr (ctx_hdr ''Bearer tok123'')"
    by (simp add: checkBearerAuth_def env0_def syscfg0_def Let_def)
next
  have "authenticate env0 (ctx_hdr ''Basic YWxpY2U6czNjcmV0'') syscfg0 =
        (case snd (checkBasicAuth env0 (ctx_hdr ''Basic YWxpY2U6czNjcmV0'')
                     ''Basic YWxpY2U6czNjcmV0'' syscfg0) of
           Some err \<Rightarrow> Inl err | None \<Rightarrow> Inr (ctx_hdr ''Basic YWxpY2U6czNjcmV0''))"
    using authenticate_dispatch
            [of "ctx_hdr ''Basic YWxpY2U6czNjcmV0''" env0 syscfg0
                "[''x-helm-api-client'' \<mapsto> [''2.2.0''],
                  ''authorization'' \<mapsto> [''Basic YWxpY2U6czNjcmV0'']]"
                "[]" "''Basic YWxpY2U6czNjcmV0''"]
          HasPrefix_Basic_alice
    by (simp add: kube_Authorization_def ctx_hdr_md)
  moreover have "getUserPasswordFromBasicAuth ''alice:s3cret'' = (''alice'', ''s3cret'')"
    using getUserPassword_split [of "''alice''" "''s3cret''"] by simp
  ultimately show "authenticate env0 (ctx_hdr ''Basic YWxpY2U6czNjcmV0'') syscfg0
               = Inr (ctx_hdr ''Basic YWxpY2U6czNjcmV0'')"
    by (simp add: checkBasicAuth_def env0_def syscfg0_def Config_zero_def Let_def)
next
  show "authenticate env0 (ctx_hdr ''Digest abc'') syscfg0
        = Inl (errors_New ''Unknown authorization scheme.'')"
    using authenticate_dispatch
            [of "ctx_hdr ''Digest abc''" env0 syscfg0
                "[''x-helm-api-client'' \<mapsto> [''2.2.0''],
                  ''authorization'' \<mapsto> [''Digest abc'']]"
                "[]" "''Digest abc''"]
          not_HasPrefix_Digest
    by (simp add: kube_Authorization_def ctx_hdr_md)
qed


subsection \<open>Certificate verifier\<close>

text \<open>
  C4. The certificate verifier of either variant fails when the call has no peer
  (\<open>No peer found!\<close>), when the peer's authentication info is not TLS info
  (\<open>No TLS credential found!\<close>), and when there is no verified chain or the first
  verified chain is empty (\<open>No verified client certificate found!\<close>); on these
  failures the context-based variant has bound nothing. Otherwise it succeeds: the
  identity's user name is the common name of the first certificate of the first
  verified chain, and the user configuration is the system configuration with
  \<open>Impersonate\<close> set to that name. The return-value-based variant returns both; the
  context-based variant binds them (the configuration inside a client) in its context.
\<close>

theorem checkClientCert_result:
  "(peer_FromContext ctx = None \<longrightarrow>
      checkClientCert ctx syscfg = (ctx, Some (errors_New ''No peer found!''))
      \<and> checkClientCert_rv ctx syscfg = Inl (errors_New ''No peer found!''))
   \<and> (peer_FromContext ctx = Some pr \<and> Peer_AuthInfo pr = OtherAuthInfo \<longrightarrow>
      checkClientCert ctx syscfg = (ctx, Some (errors_New ''No TLS credential found!''))
      \<and> checkClientCert_rv ctx syscfg = Inl (errors_New ''No TLS credential found!''))
   \<and> (peer_FromContext ctx = Some pr
        \<and> (Peer_AuthInfo pr = TLSInfo [] \<or> Peer_AuthInfo pr = TLSInfo ([] # vcs)) \<longrightarrow>
      checkClientCert ctx syscfg
        = (ctx, Some (errors_New ''No verified client certificate found!''))
      \<and> checkClientCert_rv ctx syscfg
        = Inl (errors_New ''No verified client certificate found!''))
   \<and> (peer_FromContext ctx = Some pr \<and> Peer_AuthInfo pr = TLSInfo ((c # cs) # vcs) \<longrightarrow>
      checkClientCert_rv ctx syscfg
        = Inr (\<lparr>UserInfo_Username = Subject_CommonName c, UserInfo_UID = [],
                UserInfo_Groups = []\<rparr>,
               syscfg\<lparr>Impersonate := Subject_CommonName c\<rparr>)
      \<and> snd (checkClientCert ctx syscfg) = None
      \<and> context_Value (fst (checkClientCert ctx syscfg)) kube_UserInfo
          = Some (UserInfoVal \<lparr>UserInfo_Username = Subject_CommonName c,
                    UserInfo_UID = [], UserInfo_Groups = []\<rparr>)
      \<and> context_Value (fst (checkClientCert ctx syscfg)) kube_UserClient
          = Some (ClientVal (kube_New (wrapClientConfig
                    (syscfg\<lparr>Impersonate := Subject_CommonName c\<rparr>))))
      \<and> context_Value (fst (checkClientCert ctx syscfg)) kube_ImpersonateUser
          = Some EmptyStruct)"
  by (auto simp: checkClientCert_def checkClientCert_rv_def Let_def context_Value_def
      context_WithValue_def)

theorem checkClientCert_result_witness:
  "checkClientCert (ctx_hdr []) syscfg0 = (ctx_hdr [], Some (errors_New ''No peer found!''))
   \<and> checkClientCert_rv (ctx_hdr []) syscfg0 = Inl (errors_New ''No peer found!'')
   \<and> checkClientCert_rv ctx_cert syscfg0
        = Inr (\<lparr>UserInfo_Username = ''alice'', UserInfo_UID = [], UserInfo_Groups = []\<rparr>,
               syscfg0\<lparr>Impersonate := ''alice''\<rparr>)
   \<and> snd (checkClientCert ctx_cert syscfg0) = None
   \<and> context_Value (fst (checkClientCert ctx_cert syscfg0)) kube_UserInfo
        = Some (UserInfoVal \<lparr>UserInfo_Username = ''alice'', UserInfo_UID = [],
                  UserInfo_Groups = []\<rparr>)
   \<and> context_Value (fst (checkClientCert ctx_cert syscfg0)) kube_UserClient
        = Some (ClientVal (kube_New (wrapClientConfig (syscfg0\<lparr>Impersonate := ''alice''\<rparr>))))
   \<and> context_Value (fst (checkClientCert ctx_cert syscfg0)) kube_ImpersonateUser
        = Some EmptyStruct"
proof -
  have a: "peer_FromContext (ctx_hdr []) = None"
    by (simp add: peer_FromContext_def ctx_hdr_def)
  have b: "peer_FromContext ctx_cert = Some peer_alice
           \<and> Peer_AuthInfo peer_alice = TLSInfo (([\<lparr>Subject_CommonName = ''alice''\<rparr>]) # [])"
    by (simp add: peer_FromContext_def ctx_cert_def peer_alice_def)
  show ?thesis
    using checkClientCert_result [of "ctx_hdr []" syscfg0] a
      checkClientCert_result
        [of ctx_cert syscfg0 peer_alice "[]" "\<lparr>Subject_CommonName = ''alice''\<rparr>" "[]"] b
    by simp
qed

subsection \<open>Basic verifier\<close>

lemma checkBasicAuth_decode_fails:
  "base64_DecodeString E (drop (length ''Basic '') h) = Inl err \<Longrightarrow>
     checkBasicAuth E ctx h syscfg = (ctx, Some err)
     \<and> checkBasicAuth_rv E h syscfg = Inl err"
  by (simp add: checkBasicAuth_def checkBasicAuth_rv_def)

lemma checkBasicAuth_empty_field:
  "base64_DecodeString E (drop (length ''Basic '') h) = Inr payload \<Longrightarrow>
   getUserPasswordFromBasicAuth payload = (u, p) \<Longrightarrow> u = [] \<or> p = [] \<Longrightarrow>
     checkBasicAuth E ctx h syscfg
       = (ctx, Some (errors_New ''Missing username or password.''))
     \<and> checkBasicAuth_rv E h syscfg = Inl (errors_New ''Missing username or password.'')"
  by (auto simp: checkBasicAuth_def checkBasicAuth_rv_def)

lemma checkBasicAuth_probe:
  assumes "base64_DecodeString E (drop (length ''Basic '') h) = Inr payload"
    and "getUserPasswordFromBasicAuth payload = (u, p)"
    and "u \<noteq> []" and "p \<noteq> []"
    and "usrcfg = \<lparr>Host = Host syscfg, APIPath = APIPath syscfg, Prefix = Prefix syscfg,
                   Username = u, Password = p, BearerToken = [], Impersonate = [],
                   TLSClientConfig = \<lparr>CertData = CertData (TLSClientConfig syscfg),
                                       KeyData = [], CAData = []\<rparr>,
                   Insecure = False, UserAgent = []\<rparr>"
  shows "checkBasicAuth_rv E h syscfg =
           (case ClientSet E usrcfg of
              Some err \<Rightarrow> Inl err
            | None \<Rightarrow>
                (case ServerVersion E usrcfg of
                   Some err \<Rightarrow> Inl err
                 | None \<Rightarrow> Inr (\<lparr>UserInfo_Username = u, UserInfo_UID = [],
                                  UserInfo_Groups = []\<rparr>, usrcfg)))"
    and "snd (checkBasicAuth E ctx h syscfg) =
           (case ClientSet E usrcfg of
              Some err \<Rightarrow> Some err
            | None \<Rightarrow> ServerVersion E usrcfg)"
    and "snd (checkBasicAuth E ctx h syscfg) \<noteq> None \<Longrightarrow>
           fst (checkBasicAuth E ctx h syscfg) = ctx"
  using assms
  by (auto simp: checkBasicAuth_def checkBasicAuth_rv_def Let_def Config_zero_def
      split: option.splits)

text \<open>
  C5. The basic verifier of either variant: when base64-decoding the text after
  \<open>Basic \<close> fails, it returns the decoder's error; when the decoded user name or
  password is empty, it returns \<open>Missing username or password.\<close>; in both cases no
  identity is returned or bound. Otherwise it builds the user configuration \<open>usrcfg\<close>
  (host, API path, prefix and certificate data of the system configuration, with the
  decoded user name and password) and probes the cluster with it: an error of the
  client construction or of the server-version probe is returned as the verifier's
  error, with no identity; only when the probe succeeds is the identity (the decoded
  user name) returned with \<open>usrcfg\<close>.
\<close>

theorem checkBasicAuth_result:
  assumes "usrcfg = \<lparr>Host = Host syscfg, APIPath = APIPath syscfg, Prefix = Prefix syscfg,
                      Username = u, Password = p, BearerToken = [], Impersonate = [],
                      TLSClientConfig = \<lparr>CertData = CertData (TLSClientConfig syscfg),
                                          KeyData = [], CAData = []\<rparr>,
                      Insecure = False, UserAgent = []\<rparr>"
  shows
  "(base64_DecodeString E (drop (length ''Basic '') h) = Inl err \<longrightarrow>
      checkBasicAuth E ctx h syscfg = (ctx, Some err)
      \<and> checkBasicAuth_rv E h syscfg = Inl err)
   \<and> (base64_DecodeString E (drop (length ''Basic '') h) = Inr payload
        \<and> getUserPasswordFromBasicAuth payload = (u, p) \<and> (u = [] \<or> p = []) \<longrightarrow>
      checkBasicAuth E ctx h syscfg
        = (ctx, Some (errors_New ''Missing username or password.''))
      \<and> checkBasicAuth_rv E h syscfg = Inl (errors_New ''Missing username or password.''))
   \<and> (base64_DecodeString E (drop (length ''Basic '') h) = Inr payload
        \<and> getUserPasswordFromBasicAuth payload = (u, p) \<and> u \<noteq> [] \<and> p \<noteq> []
        \<and> ClientSet E usrcfg = Some err \<longrightarrow>
      checkBasicAuth E ctx h syscfg = (ctx, Some err)
      \<and> checkBasicAuth_rv E h syscfg = Inl err)
   \<and> (base64_DecodeString E (drop (length ''Basic '') h) = Inr payload
        \<and> getUserPasswordFromBasicAuth payload = (u, p) \<and> u \<noteq> [] \<and> p \<noteq> []
        \<and> ClientSet E usrcfg = None \<and> ServerVersion E usrcfg = Some err \<longrightarrow>
      checkBasicAuth E ctx h syscfg = (ctx, Some err)
      \<and> checkBasicAuth_rv E h syscfg = Inl err)
   \<and> (base64_DecodeString E (drop (length ''Basic '') h) = Inr payload
        \<and> getUserPasswordFromBasicAuth payload = (u, p) \<and> u \<noteq> [] \<and> p \<noteq> []
        \<and> ClientSet E usrcfg = None \<and> ServerVersion E usrcfg = None \<longrightarrow>
      checkBasicAuth_rv E h syscfg
        = Inr (\<lparr>UserInfo_Username = u, UserInfo_UID = [], UserInfo_Groups = []\<rparr>, usrcfg)
      \<and> snd (checkBasicAuth E ctx h syscfg) = None
      \<and> context_Value (fst (checkBasicAuth E ctx h syscfg)) kube_UserInfo
          = Some (UserInfoVal \<lparr>UserInfo_Username = u, UserInfo_UID = [],
                    UserInfo_Groups = []\<rparr>)
      \<and> context_Value (fst (checkBasicAuth E ctx h syscfg)) kube_UserClient
          = Some (ClientVal (kube_New (wrapClientConfig usrcfg))))"
proof (intro conjI impI)
  assume "base64_DecodeString E (drop (length ''Basic '') h) = Inl err"
  then show "checkBasicAuth E ctx h syscfg = (ctx, Some err)"
    and "checkBasicAuth_rv E h syscfg = Inl err"
    by (simp_all add: checkBasicAuth_decode_fails)
next
  assume "base64_DecodeString E (drop (length ''Basic '') h) = Inr payload
        \<and> getUserPasswordFromBasicAuth payload = (u, p) \<and> (u = [] \<or> p = [])"
  then show "checkBasicAuth E ctx h syscfg
        = (ctx, Some (errors_New ''Missing username or password.''))"
    and "checkBasicAuth_rv E h syscfg = Inl (errors_New ''Missing username or password.'')"
    using checkBasicAuth_empty_field [of E h payload u p ctx syscfg] by blast+
next
  assume a: "base64_DecodeString E (drop (length ''Basic '') h) = Inr payload
        \<and> getUserPasswordFromBasicAuth payload = (u, p) \<and> u \<noteq> [] \<and> p \<noteq> []
        \<and> ClientSet E usrcfg = Some err"
  then have "snd (checkBasicAuth E ctx h syscfg) = Some err"
    using checkBasicAuth_probe(2) [OF _ _ _ _ assms, of E h payload ctx] by simp
  moreover from this a have "fst (checkBasicAuth E ctx h syscfg) = ctx"
    using checkBasicAuth_probe(3) [OF _ _ _ _ assms, of E h payload ctx] by simp
  ultimately show "checkBasicAuth E ctx h syscfg = (ctx, Some err)"
    by (simp add: prod_eq_iff)
  from a show "checkBasicAuth_rv E h syscfg = Inl err"
    using checkBasicAuth_probe(1) [OF _ _ _ _ assms, of E h payload] by simp
next
  assume a: "base64_DecodeString E (drop (length ''Basic '') h) = Inr payload
        \<and> getUserPasswordFromBasicAuth payload = (u, p) \<and> u \<noteq> [] \<and> p \<noteq> []
        \<and> ClientSet E usrcfg = None \<and> ServerVersion E usrcfg = Some err"
  then have "snd (checkBasicAuth E ctx h syscfg) = Some err"
    using checkBasicAuth_probe(2) [OF _ _ _ _ assms, of E h payload ctx] by simp
  moreover from this a have "fst (checkBasicAuth E ctx h syscfg) = ctx"
    using checkBasicAuth_probe(3) [OF _ _ _ _ assms, of E h payload ctx] by simp
  ultimately show "checkBasicAuth E ctx h syscfg = (ctx, Some err)"
    by (simp add: prod_eq_iff)
  from a show "checkBasicAuth_rv E h syscfg = Inl err"
    using checkBasicAuth_probe(1) [OF _ _ _ _ assms, of E h payload] by simp
next
  assume a: "base64_DecodeString E (drop (length ''Basic '') h) = Inr payload
        \<and> getUserPasswordFromBasicAuth payload = (u, p) \<and> u \<noteq> [] \<and> p \<noteq> []
        \<and> ClientSet E usrcfg = None \<and> ServerVersion E usrcfg = None"
  then show "checkBasicAuth_rv E h syscfg
        = Inr (\<lparr>UserInfo_Username = u, UserInfo_UID = [], UserInfo_Groups = []\<rparr>, usrcfg)"
    using checkBasicAuth_probe(1) [OF _ _ _ _ assms, of E h payload] by simp
  from a show "snd (checkBasicAuth E ctx h syscfg) = None"
    using checkBasicAuth_probe(2) [OF _ _ _ _ assms, of E h payload ctx] by simp
  from a assms show "context_Value (fst (checkBasicAuth E ctx h syscfg)) kube_UserInfo
          = Some (UserInfoVal \<lparr>UserInfo_Username = u, UserInfo_UID = [],
                    UserInfo_Groups = []\<rparr>)"
    by (simp add: checkBasicAuth_def Let_def Config_zero_def context_Value_def
        context_WithValue_def)
  from a assms show "context_Value (fst (checkBasicAuth E ctx h syscfg)) kube_UserClient
          = Some (ClientVal (kube_New (wrapClientConfig usrcfg)))"
    by (simp add: checkBasicAuth_def Let_def Config_zero_def context_Value_def
        context_WithValue_def)
qed

lemma parse_alice: "getUserPasswordFromBasicAuth ''alice:s3cret'' = (''alice'', ''s3cret'')"
  using getUserPassword_split [of "''alice''" "''s3cret''"] by simp

lemma parse_mallory: "getUserPasswordFromBasicAuth ''mallory:x'' = (''mallory'', ''x'')"
  using getUserPassword_split [of "''mallory''" "''x''"] by simp

lemma parse_nocolon: "getUserPasswordFromBasicAuth ''nocolon'' = ([], [])"
  using getUserPassword_nocolon [of "''nocolon''"] by simp

theorem checkBasicAuth_result_witness:
  "checkBasicAuth_rv env0 ''Basic !!'' syscfg0
     = Inl (errors_New ''illegal base64 data at input byte 0'')
   \<and> checkBasicAuth env0 ctx_cert ''Basic bm9jb2xvbg=='' syscfg0
     = (ctx_cert, Some (errors_New ''Missing username or password.''))
   \<and> checkBasicAuth_rv env0 ''Basic YWxpY2U6czNjcmV0'' (syscfg0\<lparr>Host := []\<rparr>)
     = Inl (errors_New ''host must be a URL'')
   \<and> checkBasicAuth env0 ctx_cert ''Basic bWFsbG9yeTp4'' syscfg0
     = (ctx_cert, Some (errors_New ''Unauthorized''))
   \<and> checkBasicAuth_rv env0 ''Basic bWFsbG9yeTp4'' syscfg0
     = Inl (errors_New ''Unauthorized'')
   \<and> checkBasicAuth_rv env0 ''Basic YWxpY2U6czNjcmV0'' syscfg0
     = Inr (\<lparr>UserInfo_Username = ''alice'', UserInfo_UID = [], UserInfo_Groups = []\<rparr>,
            \<lparr>Host = ''https://10.0.0.1:443'', APIPath = ''/api'', Prefix = [],
             Username = ''alice'', Password = ''s3cret'', BearerToken = [],
             Impersonate = [],
             TLSClientConfig = \<lparr>CertData = ''CERT'', KeyData = [], CAData = []\<rparr>,
             Insecure = False, UserAgent = []\<rparr>)
   \<and> context_Value (fst (checkBasicAuth env0 ctx_cert ''Basic YWxpY2U6czNjcmV0'' syscfg0))
        kube_UserInfo
     = Some (UserInfoVal \<lparr>UserInfo_Username = ''alice'', UserInfo_UID = [],
               UserInfo_Groups = []\<rparr>)"
proof (intro conjI)
  show "checkBasicAuth_rv env0 ''Basic !!'' syscfg0
     = Inl (errors_New ''illegal base64 data at input byte 0'')"
    using checkBasicAuth_result
            [OF refl, where E = env0 and h = "''Basic !!''" and syscfg = syscfg0
               and err = "errors_New ''illegal base64 data at input byte 0''"]
    by (simp add: env0_def)
next
  show "checkBasicAuth env0 ctx_cert ''Basic bm9jb2xvbg=='' syscfg0
     = (ctx_cert, Some (errors_New ''Missing username or password.''))"
    using checkBasicAuth_result
            [OF refl, where E = env0 and h = "''Basic bm9jb2xvbg==''" and syscfg = syscfg0
               and payload = "''nocolon''" and u = "[]" and p = "[]" and ctx = ctx_cert]
          parse_nocolon
    by (simp add: env0_def)
next
  show "checkBasicAuth_rv env0 ''Basic YWxpY2U6czNjcmV0'' (syscfg0\<lparr>Host := []\<rparr>)
     = Inl (errors_New ''host must be a URL'')"
    using checkBasicAuth_result
            [OF refl, where E = env0 and h = "''Basic YWxpY2U6czNjcmV0''"
               and syscfg = "syscfg0\<lparr>Host := []\<rparr>" and payload = "''alice:s3cret''"
               and u = "''alice''" and p = "''s3cret''"
               and err = "errors_New ''host must be a URL''"]
          parse_alice
    by (simp add: env0_def)
next
  show "checkBasicAuth env0 ctx_cert ''Basic bWFsbG9yeTp4'' syscfg0
     = (ctx_cert, Some (errors_New ''Unauthorized''))"
    using checkBasicAuth_result
            [OF refl, where E = env0 and h = "''Basic bWFsbG9yeTp4''" and syscfg = syscfg0
               and payload = "''mallory:x''" and u = "''mallory''" and p = "''x''"
               and err = "errors_New ''Unauthorized''" and ctx = ctx_cert]
          parse_mallory
    by (simp add: env0_def syscfg0_def)
next
  show "checkBasicAuth_rv env0 ''Basic bWFsbG9yeTp4'' syscfg0
     = Inl (errors_New ''Unauthorized'')"
    using checkBasicAuth_result
            [OF refl, where E = env0 and h = "''Basic bWFsbG9yeTp4''" and syscfg = syscfg0
               and payload = "''mallory:x''" and u = "''mallory''" and p = "''x''"
               and err = "errors_New ''Unauthorized''"]
          parse_mallory
    by (simp add: env0_def syscfg0_def)
next
  show "checkBasicAuth_rv env0 ''Basic YWxpY2U6czNjcmV0'' syscfg0
     = Inr (\<lparr>UserInfo_Username = ''alice'', UserInfo_UID = [], UserInfo_Groups = []\<rparr>,
            \<lparr>Host = ''https://10.0.0.1:443'', APIPath = ''/api'', Prefix = [],
             Username = ''alice'', Password = ''s3cret'', BearerToken = [],
             Impersonate = [],
             TLSClientConfig = \<lparr>CertData = ''CERT'', KeyData = [], CAData = []\<rparr>,
             Insecure = False, UserAgent = []\<rparr>)"
    using checkBasicAuth_result
            [OF refl, where E = env0 and h = "''Basic YWxpY2U6czNjcmV0''"
               and syscfg = syscfg0 and payload = "''alice:s3cret''"
               and u = "''alice''" and p = "''s3cret''"]
          parse_alice
    by (simp add: env0_def syscfg0_def)
next
  show "context_Value (fst (checkBasicAuth env0 ctx_cert ''Basic YWxpY2U6czNjcmV0'' syscfg0))
        kube_UserInfo
     = Some (UserInfoVal \<lparr>UserInfo_Username = ''alice'', UserInfo_UID = [],
               UserInfo_Groups = []\<rparr>)"
    using checkBasicAuth_result
            [OF refl, where E = env0 and h = "''Basic YWxpY2U6czNjcmV0''"
               and syscfg = syscfg0 and payload = "''alice:s3cret''"
               and u = "''alice''" and p = "''s3cret''" and ctx = ctx_cert]
          parse_alice
    by (simp add: env0_def syscfg0_def)
qed


subsection \<open>The context handed to the handler\<close>

lemma authenticate_Inr_same:
  "authenticate E ctx syscfg = Inr ctx' \<Longrightarrow> ctx' = ctx"
  by (auto simp: authenticate_def Let_def split: option.splits if_splits)

lemma splitMethod_ListReleases:
  "splitMethod ''/hapi.services.tiller.ReleaseService/ListReleases''
     = (''hapi.services.tiller.ReleaseService'', ''ListReleases'')"
  by (simp add: splitMethod_def strings_Split_def strings_Count_def eval_nat_numeral)

lemma splitMethod_GetVersion:
  "splitMethod ''/hapi.services.tiller.ReleaseService/GetVersion''
     = (''hapi.services.tiller.ReleaseService'', ''GetVersion'')"
  by (simp add: splitMethod_def strings_Split_def strings_Count_def eval_nat_numeral)

lemma checkClientVersion_ctx_cert: "checkClientVersion env0 ctx_cert = None"
  by (simp add: checkClientVersion_def versionFromContext_def metadata_FromContext_def
      ctx_cert_def env0_def)

lemma checkClientVersion_ctx_old:
  "checkClientVersion env0 ctx_old
     = Some (errors_New ''incompatible versions client: 1.0.0 server: 2.2.0'')"
  by (simp add: checkClientVersion_def versionFromContext_def metadata_FromContext_def
      ctx_old_def env0_def)

lemma authenticate_ctx_cert: "authenticate env0 ctx_cert syscfg0 = Inr ctx_cert"
  by (simp add: authenticate_def metadata_FromContext_def kube_Authorization_def
      checkClientCert_def peer_FromContext_def ctx_cert_def peer_alice_def Let_def)

lemma authenticate_ctx_old: "authenticate env0 ctx_old syscfg0 = Inr ctx_old"
  by (simp add: authenticate_def metadata_FromContext_def kube_Authorization_def
      checkClientCert_def peer_FromContext_def ctx_old_def peer_alice_def Let_def)

text \<open>
  C1, on the code of pkg/tiller/server.go. A call with a verified client certificate of
  \<open>alice\<close> and a compatible version passes the certificate verifier, whose own context
  binds the identity. The context that \<open>authenticate\<close> returns, and that the unary and
  the streaming interceptor hand to the handler, is the transport context it was given:
  it binds no identity, no user client, no system client and no impersonation flag. The
  return-value-based copy of the file hands the handler a context that binds the
  identity.
\<close>

theorem handler_gets_transport_context:
  "authenticate env0 ctx_cert syscfg0 = Inr ctx_cert
   \<and> context_Value (fst (checkClientCert ctx_cert syscfg0)) kube_UserInfo
        = Some (UserInfoVal \<lparr>UserInfo_Username = ''alice'', UserInfo_UID = [],
                  UserInfo_Groups = []\<rparr>)
   \<and> newUnaryInterceptor env0 syscfg0 ctx_cert () ListReleases_info (\<lambda>c r. c)
        = Inr ctx_cert
   \<and> newStreamInterceptor env0 syscfg0 () (stream_of ctx_cert) ListReleases_stream_info
        (\<lambda>v s. Context s) = Inr ctx_cert
   \<and> context_Value ctx_cert kube_UserInfo = None
   \<and> context_Value ctx_cert kube_UserClient = None
   \<and> context_Value ctx_cert kube_SystemClient = None
   \<and> context_Value ctx_cert kube_ImpersonateUser = None
   \<and> newUnaryInterceptor_rv env0 syscfg0 ctx_cert () ListReleases_info
        (\<lambda>c r. context_Value c kube_UserInfo)
        = Inr (Some (UserInfoVal \<lparr>UserInfo_Username = ''alice'', UserInfo_UID = [],
                       UserInfo_Groups = []\<rparr>))"
proof (intro conjI)
  show "authenticate env0 ctx_cert syscfg0 = Inr ctx_cert"
    by (rule authenticate_ctx_cert)
  show "context_Value (fst (checkClientCert ctx_cert syscfg0)) kube_UserInfo
        = Some (UserInfoVal \<lparr>UserInfo_Username = ''alice'', UserInfo_UID = [],
                  UserInfo_Groups = []\<rparr>)"
    by (simp add: checkClientCert_def peer_FromContext_def ctx_cert_def peer_alice_def
        Let_def context_Value_def context_WithValue_def)
  show "newUnaryInterceptor env0 syscfg0 ctx_cert () ListReleases_info (\<lambda>c r. c)
        = Inr ctx_cert"
    by (simp add: newUnaryInterceptor_def checkClientVersion_ctx_cert
        authenticate_ctx_cert)
  show "newStreamInterceptor env0 syscfg0 () (stream_of ctx_cert) ListReleases_stream_info
        (\<lambda>v s. Context s) = Inr ctx_cert"
    by (simp add: newStreamInterceptor_def stream_of_def checkClientVersion_ctx_cert
        authenticate_ctx_cert wrapper_ServerStream_def wrapper_Context_def)
  show "context_Value ctx_cert kube_UserInfo = None"
    and "context_Value ctx_cert kube_UserClient = None"
    and "context_Value ctx_cert kube_SystemClient = None"
    and "context_Value ctx_cert kube_ImpersonateUser = None"
    by (simp_all add: context_Value_def ctx_cert_def)
  show "newUnaryInterceptor_rv env0 syscfg0 ctx_cert () ListReleases_info
        (\<lambda>c r. context_Value c kube_UserInfo)
        = Inr (Some (UserInfoVal \<lparr>UserInfo_Username = ''alice'', UserInfo_UID = [],
                       UserInfo_Groups = []\<rparr>))"
  proof -
    have "authenticate_rv env0 ctx_cert syscfg0
       = Inr (ctx_cert\<lparr>ctx_values := (ctx_values ctx_cert)
                (kube_UserInfo \<mapsto> UserInfoVal \<lparr>UserInfo_Username = ''alice'',
                                    UserInfo_UID = [], UserInfo_Groups = []\<rparr>,
                 kube_UserClientConfig \<mapsto> ConfigVal (syscfg0\<lparr>Impersonate := ''alice''\<rparr>),
                 kube_SystemClientConfig \<mapsto> ConfigVal syscfg0)\<rparr>)"
      by (simp add: authenticate_rv_def metadata_FromContext_def kube_Authorization_def
          checkClientCert_rv_def peer_FromContext_def ctx_cert_def peer_alice_def Let_def
          context_WithValue_def)
    then show ?thesis
      by (simp add: newUnaryInterceptor_rv_def checkClientVersion_ctx_cert
          context_Value_def)
  qed
qed

text \<open>
  The return-value-based copy: whenever \<open>authenticate\<close> succeeds, the context it
  returns is the transport context extended with an identity, a user configuration and
  the system configuration; it binds no impersonation flag.
\<close>

theorem authenticate_rv_binds:
  assumes "authenticate_rv E ctx syscfg = Inr ctx'"
  shows "(\<exists>user usrcfg.
            ctx' = ctx\<lparr>ctx_values := (ctx_values ctx)
                     (kube_UserInfo \<mapsto> UserInfoVal user,
                      kube_UserClientConfig \<mapsto> ConfigVal usrcfg,
                      kube_SystemClientConfig \<mapsto> ConfigVal syscfg)\<rparr>)"
  using assms
  by (auto simp: authenticate_rv_def Let_def context_WithValue_def
      split: option.splits if_splits sum.splits)

theorem authenticate_rv_binds_witness:
  "authenticate_rv env0 ctx_cert syscfg0
     = Inr (ctx_cert\<lparr>ctx_values := (ctx_values ctx_cert)
              (kube_UserInfo \<mapsto> UserInfoVal \<lparr>UserInfo_Username = ''alice'',
                                  UserInfo_UID = [], UserInfo_Groups = []\<rparr>,
               kube_UserClientConfig \<mapsto> ConfigVal (syscfg0\<lparr>Impersonate := ''alice''\<rparr>),
               kube_SystemClientConfig \<mapsto> ConfigVal syscfg0)\<rparr>)
   \<and> (\<exists>user usrcfg.
         ctx_cert\<lparr>ctx_values := (ctx_values ctx_cert)
              (kube_UserInfo \<mapsto> UserInfoVal \<lparr>UserInfo_Username = ''alice'',
                                  UserInfo_UID = [], UserInfo_Groups = []\<rparr>,
               kube_UserClientConfig \<mapsto> ConfigVal (syscfg0\<lparr>Impersonate := ''alice''\<rparr>),
               kube_SystemClientConfig \<mapsto> ConfigVal syscfg0)\<rparr>
         = ctx_cert\<lparr>ctx_values := (ctx_values ctx_cert)
                     (kube_UserInfo \<mapsto> UserInfoVal user,
                      kube_UserClientConfig \<mapsto> ConfigVal usrcfg,
                      kube_SystemClientConfig \<mapsto> ConfigVal syscfg0)\<rparr>)"
proof -
  have e: "authenticate_rv env0 ctx_cert syscfg0
     = Inr (ctx_cert\<lparr>ctx_values := (ctx_values ctx_cert)
              (kube_UserInfo \<mapsto> UserInfoVal \<lparr>UserInfo_Username = ''alice'',
                                  UserInfo_UID = [], UserInfo_Groups = []\<rparr>,
               kube_UserClientConfig \<mapsto> ConfigVal (syscfg0\<lparr>Impersonate := ''alice''\<rparr>),
               kube_SystemClientConfig \<mapsto> ConfigVal syscfg0)\<rparr>)"
    by (simp add: authenticate_rv_def metadata_FromContext_def kube_Authorization_def
        checkClientCert_rv_def peer_FromContext_def ctx_cert_def peer_alice_def Let_def
        context_WithValue_def)
  from authenticate_rv_binds [OF e] e show ?thesis
    by blast
qed

subsection \<open>Version check\<close>

lemma checkClientVersion_incompatible:
  "\<not> version_IsCompatible E (versionFromContext ctx) (version_Version E) \<Longrightarrow>
     checkClientVersion E ctx
       = Some (errors_New (''incompatible versions client: '' @ versionFromContext ctx
                           @ '' server: '' @ version_Version E))"
  by (simp add: checkClientVersion_def)

text \<open>
  C2. The version-discovery method \<open>GetVersion\<close> is a unary method of the release
  service, so the calls that reach the streaming interceptor are calls of other
  methods. A call whose client version is incompatible with the server's, unary or
  streaming, of a method other than \<open>GetVersion\<close>, fails with the version error and
  the handler is not run. For a unary call of \<open>GetVersion\<close> the outcome does not
  depend on the version check at all: it is the outcome of authentication followed by
  the handler.
\<close>

theorem version_check_exempts_only_GetVersion:
  "(\<not> version_IsCompatible E (versionFromContext ctx) (version_Version E)
      \<and> snd (splitMethod (FullMethod info)) \<noteq> ''GetVersion'' \<longrightarrow>
      newUnaryInterceptor E syscfg ctx req info handler
        = Inl (errors_New (''incompatible versions client: '' @ versionFromContext ctx
                           @ '' server: '' @ version_Version E)))
   \<and> (\<not> version_IsCompatible E (versionFromContext (Context stream)) (version_Version E)
        \<and> snd (splitMethod (StreamServerInfo_FullMethod sinfo)) \<noteq> ''GetVersion'' \<longrightarrow>
      newStreamInterceptor E syscfg srv stream sinfo shandler
        = Inl (errors_New (''incompatible versions client: ''
                           @ versionFromContext (Context stream)
                           @ '' server: '' @ version_Version E)))
   \<and> (snd (splitMethod (FullMethod info)) = ''GetVersion'' \<longrightarrow>
      newUnaryInterceptor E syscfg ctx req info handler
        = (case authenticate E ctx syscfg of
             Inl err \<Rightarrow> Inl err | Inr ctx' \<Rightarrow> Inr (handler ctx' req)))"
proof (intro conjI impI)
  assume "\<not> version_IsCompatible E (versionFromContext ctx) (version_Version E)
      \<and> snd (splitMethod (FullMethod info)) \<noteq> ''GetVersion''"
  then show "newUnaryInterceptor E syscfg ctx req info handler
        = Inl (errors_New (''incompatible versions client: '' @ versionFromContext ctx
                           @ '' server: '' @ version_Version E))"
    by (simp add: newUnaryInterceptor_def checkClientVersion_incompatible)
next
  assume "\<not> version_IsCompatible E (versionFromContext (Context stream)) (version_Version E)
        \<and> snd (splitMethod (StreamServerInfo_FullMethod sinfo)) \<noteq> ''GetVersion''"
  then show "newStreamInterceptor E syscfg srv stream sinfo shandler
        = Inl (errors_New (''incompatible versions client: ''
                           @ versionFromContext (Context stream)
                           @ '' server: '' @ version_Version E))"
    by (simp add: newStreamInterceptor_def checkClientVersion_incompatible)
next
  assume "snd (splitMethod (FullMethod info)) = ''GetVersion''"
  then show "newUnaryInterceptor E syscfg ctx req info handler
        = (case authenticate E ctx syscfg of
             Inl err \<Rightarrow> Inl err | Inr ctx' \<Rightarrow> Inr (handler ctx' req))"
    by (simp add: newUnaryInterceptor_def Let_def split: option.splits)
qed

lemma versionFromContext_ctx_old: "versionFromContext ctx_old = ''1.0.0''"
  by (simp add: versionFromContext_def metadata_FromContext_def ctx_old_def)

lemma env0_version:
  "version_IsCompatible env0 a b = (a = b)" "version_Version env0 = ''2.2.0''"
  by (simp_all add: env0_def)

theorem version_check_exempts_only_GetVersion_witness:
  "newUnaryInterceptor env0 syscfg0 ctx_old () ListReleases_info (\<lambda>c r. c)
     = Inl (errors_New ''incompatible versions client: 1.0.0 server: 2.2.0'')
   \<and> newStreamInterceptor env0 syscfg0 () (stream_of ctx_old) ListReleases_stream_info
        (\<lambda>v s. Context s)
     = Inl (errors_New ''incompatible versions client: 1.0.0 server: 2.2.0'')
   \<and> newUnaryInterceptor env0 syscfg0 ctx_old () GetVersion_info (\<lambda>c r. c) = Inr ctx_old"
proof (intro conjI)
  show "newUnaryInterceptor env0 syscfg0 ctx_old () ListReleases_info (\<lambda>c r. c)
     = Inl (errors_New ''incompatible versions client: 1.0.0 server: 2.2.0'')"
    using version_check_exempts_only_GetVersion
            [where E = env0 and ctx = ctx_old and info = ListReleases_info
               and syscfg = syscfg0 and req = "()" and handler = "\<lambda>c r. c",
             THEN conjunct1]
    by (simp add: versionFromContext_ctx_old splitMethod_ListReleases
        ListReleases_info_def env0_version)
  show "newStreamInterceptor env0 syscfg0 () (stream_of ctx_old) ListReleases_stream_info
        (\<lambda>v s. Context s)
     = Inl (errors_New ''incompatible versions client: 1.0.0 server: 2.2.0'')"
    using version_check_exempts_only_GetVersion
            [where E = env0 and stream = "stream_of ctx_old" and syscfg = syscfg0
               and srv = "()" and sinfo = ListReleases_stream_info
               and shandler = "\<lambda>v s. Context s",
             THEN conjunct2, THEN conjunct1]
    by (simp add: versionFromContext_ctx_old stream_of_def env0_version
        splitMethod_ListReleases ListReleases_stream_info_def)
  show "newUnaryInterceptor env0 syscfg0 ctx_old () GetVersion_info (\<lambda>c r. c) = Inr ctx_old"
    using version_check_exempts_only_GetVersion
            [where E = env0 and ctx = ctx_old and info = GetVersion_info
               and syscfg = syscfg0 and req = "()" and handler = "\<lambda>c r. c",
             THEN conjunct2, THEN conjunct2]
    by (simp add: splitMethod_GetVersion GetVersion_info_def authenticate_ctx_old)
qed

subsection \<open>The fake release client\<close>

lemma List_loop_filter:
  "List_loop label items acc
     = acc @ filter (\<lambda>item. labels_Matches label (Release_Labels item)) items"
  by (induction items arbitrary: acc) simp_all

lemma labels_Matches_Everything: "labels_Matches labels_Everything ls"
  by (simp add: labels_Matches_def labels_Everything_def)

text \<open>
  C6. When the fake's reaction to the list action is a release list, \<open>List\<close> returns a
  list whose items are exactly the items of that list whose labels the selector
  matches, in their order; with an absent selector, or with the selector without
  requirements, the items are the reaction's items unchanged.
\<close>

theorem FakeRelease_List_filters:
  assumes "Fake_Invokes mock (NewListAction resource (mock_ns mock) opts)
             = (Some (ReleaseListObject rl), err)"
  shows "(LabelSelector opts = Some sel \<longrightarrow>
            FakeRelease_List mock opts
              = Return (Some \<lparr>ListMeta_ResourceVersion = [],
                               Items = filter (\<lambda>item. labels_Matches sel (Release_Labels item))
                                         (Items rl)\<rparr>, err))
         \<and> (LabelSelector opts = None \<or> LabelSelector opts = Some labels_Everything \<longrightarrow>
            FakeRelease_List mock opts
              = Return (Some \<lparr>ListMeta_ResourceVersion = [], Items = Items rl\<rparr>, err))"
  using assms
  by (auto simp: FakeRelease_List_def ExtractFromListOptions_def List_loop_filter
      labels_Matches_Everything)

theorem FakeRelease_List_filters_witness:
  "FakeRelease_List mock0 \<lparr>LabelSelector = Some tier_web, ListOptions_ResourceVersion = []\<rparr>
     = Return (Some \<lparr>ListMeta_ResourceVersion = [],
                      Items = [release_of ''a'' ''web'', release_of ''c'' ''web'']\<rparr>, None)
   \<and> FakeRelease_List mock0 \<lparr>LabelSelector = None, ListOptions_ResourceVersion = []\<rparr>
     = Return (Some \<lparr>ListMeta_ResourceVersion = [],
                      Items = [release_of ''a'' ''web'', release_of ''b'' ''db'',
                               release_of ''c'' ''web'']\<rparr>, None)"
proof -
  have inv: "Fake_Invokes mock0 (NewListAction resource (mock_ns mock0) o1)
      = (Some (ReleaseListObject
                  \<lparr>ListMeta_ResourceVersion = ''7'',
                   Items = [release_of ''a'' ''web'', release_of ''b'' ''db'',
                            release_of ''c'' ''web'']\<rparr>), None)" for o1
    by (simp add: mock0_def)
  show ?thesis
    using FakeRelease_List_filters
            [OF inv, where opts = "\<lparr>LabelSelector = Some tier_web,
                                       ListOptions_ResourceVersion = []\<rparr>"
               and sel = tier_web, THEN conjunct1]
          FakeRelease_List_filters
            [OF inv, where opts = "\<lparr>LabelSelector = None,
                                       ListOptions_ResourceVersion = []\<rparr>",
             THEN conjunct2]
    by (simp add: labels_Matches_def tier_web_def release_of_def)
qed


subsection \<open>Storage factory\<close>

lemma ensureResource_exists:
  "\<not> kberrs_IsNotFound (ThirdPartyResources_Get W (''release.'' @ GroupName W)) \<Longrightarrow>
     ensureResource W
       = ([ThirdPartyResources_Get_call (''release.'' @ GroupName W)], Return ())"
  by (simp add: ensureResource_def Let_def)

lemma ensureResource_created:
  "kberrs_IsNotFound (ThirdPartyResources_Get W (''release.'' @ GroupName W)) \<Longrightarrow>
   ThirdPartyResources_Create W
     \<lparr>TypeMeta_APIVersion = ''extensions/v1alpha1'', TypeMeta_Kind = ''ThirdPartyResource'',
      ObjectMeta_Name = ''release.'' @ GroupName W,
      Versions = [V1alpha1SchemeGroupVersion_Version]\<rparr> = None \<Longrightarrow>
     ensureResource W
       = ([ThirdPartyResources_Get_call (''release.'' @ GroupName W),
           ThirdPartyResources_Create_call
             \<lparr>TypeMeta_APIVersion = ''extensions/v1alpha1'',
              TypeMeta_Kind = ''ThirdPartyResource'',
              ObjectMeta_Name = ''release.'' @ GroupName W,
              Versions = [V1alpha1SchemeGroupVersion_Version]\<rparr>],
          Return ())"
  by (simp add: ensureResource_def Let_def)

lemma ensureResource_create_fails:
  "kberrs_IsNotFound (ThirdPartyResources_Get W (''release.'' @ GroupName W)) \<Longrightarrow>
   ThirdPartyResources_Create W
     \<lparr>TypeMeta_APIVersion = ''extensions/v1alpha1'', TypeMeta_Kind = ''ThirdPartyResource'',
      ObjectMeta_Name = ''release.'' @ GroupName W,
      Versions = [V1alpha1SchemeGroupVersion_Version]\<rparr> = Some e \<Longrightarrow>
     ensureResource W
       = ([ThirdPartyResources_Get_call (''release.'' @ GroupName W),
           ThirdPartyResources_Create_call
             \<lparr>TypeMeta_APIVersion = ''extensions/v1alpha1'',
              TypeMeta_Kind = ''ThirdPartyResource'',
              ObjectMeta_Name = ''release.'' @ GroupName W,
              Versions = [V1alpha1SchemeGroupVersion_Version]\<rparr>,
           Stderr (''Failed to create third party resource: '' @ message e @ newline)],
          os_Exit 1)"
  by (simp add: ensureResource_def Let_def)

lemma ensureResource_outcome:
  "snd (ensureResource W) = Return () \<or> snd (ensureResource W) = os_Exit 1"
  by (simp add: ensureResource_def Let_def split: option.splits)

lemma ensureResource_first_call:
  "\<exists>t. fst (ensureResource W)
         = ThirdPartyResources_Get_call (''release.'' @ GroupName W) # t"
  by (simp add: ensureResource_def Let_def split: option.splits)

lemma andThen_Exit: "andThen (t, os_Exit n) f = (t, os_Exit n)"
  by (simp add: andThen_def)

lemma andThen_Return: "andThen (t, Return a) f = (t @ fst (f a), snd (f a))"
  by (simp add: andThen_def split: prod.splits)

lemma andThen_fst:
  "\<exists>t'. fst (andThen m f) = fst m @ t'"
  by (cases m) (auto simp: andThen_def split: outcome.splits prod.splits)

lemma andThen_exit_snd:
  "snd m = os_Exit n \<Longrightarrow> andThen m f = (fst m, os_Exit n)"
  by (cases m) (simp add: andThen_def)

lemma NewStorage_client_ok:
  assumes "client_ClientConfig W = Inr clientcfg" and "client_ClientSet W = None"
  shows "NewStorage W opts =
     (if StoreType opts = StorageMemory then
        ([], Return (Inr (Init driver_NewMemory)))
      else if StoreType opts = StorageConfigMap then
        ([], Return (Inr (Init (driver_NewConfigMaps (namespace W)))))
      else if StoreType opts = StorageInlineTPR \<or> StoreType opts = StorageObjectStoreTPR then
        andThen (ensureResource W) (\<lambda>_.
          if StoreType opts = StorageInlineTPR then
            andThen (NewExtensionsForConfigOrDie W clientcfg) (\<lambda>_.
              ([], Return (Inr (Init (driver_NewReleases (namespace W))))))
          else
            andThen (NewStorage_stowCfg W opts) (\<lambda>stowCfg.
            andThen
              (case stow_Dial W (ObjectStoreProvider opts) stowCfg of
                 Inl err \<Rightarrow>
                   ([stow_Dial_call (ObjectStoreProvider opts) stowCfg,
                     Stderr (''Cannot connect to object store: ''
                             @ error_Error err @ newline)],
                    os_Exit 1)
               | Inr loc \<Rightarrow>
                   ([stow_Dial_call (ObjectStoreProvider opts) stowCfg], Return loc))
              (\<lambda>loc.
            andThen
              (case Location_Container W loc (Container opts) of
                 Inl err \<Rightarrow>
                   ([Location_Container_call (Container opts),
                     Stderr (''Cannot find container: '' @ error_Error err @ newline)],
                    os_Exit 1)
               | Inr c \<Rightarrow> ([Location_Container_call (Container opts)], Return c))
              (\<lambda>c.
            andThen (NewExtensionsForConfigOrDie W clientcfg) (\<lambda>_.
              ([], Return (Inr (Init (driver_NewObjectStoreReleases (namespace W) c
                                        (StoragePrefix opts))))))))))
      else ([], Return (Inl (errors_New (''Unknow store type '' @ StoreType opts)))))"
  using assms by (simp add: NewStorage_def)

lemma NewStorage_bootstrap_first:
  assumes "client_ClientConfig W = Inr clientcfg" and "client_ClientSet W = None"
    and "StoreType opts = StorageInlineTPR \<or> StoreType opts = StorageObjectStoreTPR"
  shows "\<exists>t. fst (NewStorage W opts) = fst (ensureResource W) @ t"
proof -
  have "StoreType opts \<noteq> StorageMemory" "StoreType opts \<noteq> StorageConfigMap"
    using assms(3)
    by (auto simp: StorageMemory_def StorageConfigMap_def StorageInlineTPR_def
        StorageObjectStoreTPR_def)
  then show ?thesis
    using assms by (simp add: NewStorage_client_ok [OF assms(1,2)] andThen_fst)
qed

lemma NewStorage_bootstrap_exit:
  assumes "client_ClientConfig W = Inr clientcfg" and "client_ClientSet W = None"
    and "StoreType opts = StorageInlineTPR \<or> StoreType opts = StorageObjectStoreTPR"
    and "snd (ensureResource W) = os_Exit n"
  shows "NewStorage W opts = (fst (ensureResource W), os_Exit n)"
proof -
  have "StoreType opts \<noteq> StorageMemory" "StoreType opts \<noteq> StorageConfigMap"
    using assms(3)
    by (auto simp: StorageMemory_def StorageConfigMap_def StorageInlineTPR_def
        StorageObjectStoreTPR_def)
  then show ?thesis
    using assms by (simp add: NewStorage_client_ok [OF assms(1,2)] andThen_exit_snd)
qed

lemma dom_setIfNonEmpty: "dom (setIfNonEmpty m k v) \<subseteq> insert k (dom m)"
  by (auto simp: setIfNonEmpty_def)

lemma stowCfg_keys_s3:
  assumes "ObjectStoreProvider opts = s3_Kind (stow W)"
    and "NewStorage_stowCfg W opts = (t, Return c)"
  shows "dom c \<subseteq> {s3_ConfigAccessKeyID (stow W), s3_ConfigEndpoint (stow W),
                    s3_ConfigRegion (stow W), s3_ConfigSecretKey (stow W)}"
  using assms
  by (auto simp: NewStorage_stowCfg_def Let_def setIfNonEmpty_def split: if_splits)

lemma stowCfg_keys_gcs:
  assumes "ObjectStoreProvider opts \<noteq> s3_Kind (stow W)"
    and "ObjectStoreProvider opts = gcs_Kind (stow W)"
    and "NewStorage_stowCfg W opts = (t, Return c)"
  shows "dom c \<subseteq> {gcs_ConfigJSON (stow W), gcs_ConfigProjectId (stow W)}"
  using assms
  by (auto simp: NewStorage_stowCfg_def Let_def setIfNonEmpty_def andThen_def
      split: if_splits sum.splits)

lemma stowCfg_keys_azure:
  assumes "ObjectStoreProvider opts \<noteq> s3_Kind (stow W)"
    and "ObjectStoreProvider opts \<noteq> gcs_Kind (stow W)"
    and "ObjectStoreProvider opts = azure_Kind (stow W)"
    and "NewStorage_stowCfg W opts = (t, Return c)"
  shows "dom c \<subseteq> {azure_ConfigAccount (stow W), azure_ConfigKey (stow W)}"
  using assms
  by (auto simp: NewStorage_stowCfg_def Let_def setIfNonEmpty_def split: if_splits)

lemma stowCfg_keys_swift:
  assumes "ObjectStoreProvider opts \<noteq> s3_Kind (stow W)"
    and "ObjectStoreProvider opts \<noteq> gcs_Kind (stow W)"
    and "ObjectStoreProvider opts \<noteq> azure_Kind (stow W)"
    and "ObjectStoreProvider opts = swift_Kind (stow W)"
    and "NewStorage_stowCfg W opts = (t, Return c)"
  shows "dom c \<subseteq> {swift_ConfigKey (stow W), swift_ConfigTenantAuthURL (stow W),
                    swift_ConfigTenantName (stow W), swift_ConfigUsername (stow W)}"
  using assms
  by (auto simp: NewStorage_stowCfg_def Let_def setIfNonEmpty_def split: if_splits)

text \<open>
  Two option records agree on the selected provider when they name the same provider
  and give the same values to the fields that provider's case of the switch reads.
\<close>

lemma stowCfg_depends_on_selected:
  assumes "ObjectStoreProvider opts' = ObjectStoreProvider opts"
    and "ObjectStoreProvider opts = s3_Kind (stow W) \<Longrightarrow>
           S3ConfigAccessKeyID opts' = S3ConfigAccessKeyID opts
           \<and> S3ConfigEndpoint opts' = S3ConfigEndpoint opts
           \<and> S3ConfigRegion opts' = S3ConfigRegion opts
           \<and> S3ConfigSecretKey opts' = S3ConfigSecretKey opts"
    and "ObjectStoreProvider opts \<noteq> s3_Kind (stow W) \<Longrightarrow>
         ObjectStoreProvider opts = gcs_Kind (stow W) \<Longrightarrow>
           GCSConfigJSONKeyPath opts' = GCSConfigJSONKeyPath opts
           \<and> GCSConfigProjectId opts' = GCSConfigProjectId opts"
    and "ObjectStoreProvider opts \<noteq> s3_Kind (stow W) \<Longrightarrow>
         ObjectStoreProvider opts \<noteq> gcs_Kind (stow W) \<Longrightarrow>
         ObjectStoreProvider opts = azure_Kind (stow W) \<Longrightarrow>
           AzureConfigAccount opts' = AzureConfigAccount opts
           \<and> AzureConfigKey opts' = AzureConfigKey opts"
    and "ObjectStoreProvider opts \<noteq> s3_Kind (stow W) \<Longrightarrow>
         ObjectStoreProvider opts \<noteq> gcs_Kind (stow W) \<Longrightarrow>
         ObjectStoreProvider opts \<noteq> azure_Kind (stow W) \<Longrightarrow>
         ObjectStoreProvider opts = swift_Kind (stow W) \<Longrightarrow>
           SwiftConfigKey opts' = SwiftConfigKey opts
           \<and> SwiftConfigTenantAuthURL opts' = SwiftConfigTenantAuthURL opts
           \<and> SwiftConfigTenantName opts' = SwiftConfigTenantName opts
           \<and> SwiftConfigUsername opts' = SwiftConfigUsername opts"
  shows "NewStorage_stowCfg W opts' = NewStorage_stowCfg W opts"
  using assms by (simp add: NewStorage_stowCfg_def Let_def)

lemma NewStorage_depends_on_selected:
  assumes "client_ClientConfig W = Inr clientcfg" and "client_ClientSet W = None"
    and "StoreType opts' = StoreType opts"
    and "Container opts' = Container opts"
    and "StoragePrefix opts' = StoragePrefix opts"
    and "NewStorage_stowCfg W opts' = NewStorage_stowCfg W opts"
    and "ObjectStoreProvider opts' = ObjectStoreProvider opts"
  shows "NewStorage W opts' = NewStorage W opts"
  by (simp only: NewStorage_client_ok [OF assms(1,2)] assms(3-7))

lemma NewStorage_inline_ok:
  assumes "client_ClientConfig W = Inr clientcfg" and "client_ClientSet W = None"
    and "StoreType opts = StorageInlineTPR"
    and "ensureResource W = (t, Return ())"
    and "NewExtensionsForConfig W clientcfg = None"
  shows "NewStorage W opts = (t, Return (Inr (Init (driver_NewReleases (namespace W)))))"
  using assms(3-5)
  by (simp add: NewStorage_client_ok [OF assms(1,2)] StorageMemory_def StorageConfigMap_def
      StorageInlineTPR_def andThen_def NewExtensionsForConfigOrDie_def)

lemma NewStorage_objstore_ok:
  assumes "client_ClientConfig W = Inr clientcfg" and "client_ClientSet W = None"
    and "StoreType opts = StorageObjectStoreTPR"
    and "ensureResource W = (t, Return ())"
    and "NewStorage_stowCfg W opts = (t1, Return c1)"
    and "stow_Dial W (ObjectStoreProvider opts) c1 = Inr loc"
    and "Location_Container W loc (Container opts) = Inr cont"
    and "NewExtensionsForConfig W clientcfg = None"
  shows "NewStorage W opts
           = (t @ t1 @ [stow_Dial_call (ObjectStoreProvider opts) c1,
                        Location_Container_call (Container opts)],
              Return (Inr (Init (driver_NewObjectStoreReleases (namespace W) cont
                                  (StoragePrefix opts)))))"
  using assms(3-8)
  by (simp add: NewStorage_client_ok [OF assms(1,2)] StorageMemory_def StorageConfigMap_def
      StorageInlineTPR_def StorageObjectStoreTPR_def andThen_def
      NewExtensionsForConfigOrDie_def)

text \<open>
  The configuration map built for a provider, in closed form: the map of the
  provider's key and field pairs whose field is not empty. Where two keys of a provider
  are the same string, the pair listed first is the one the code writes last.
\<close>

lemma stowCfg_s3:
  assumes "ObjectStoreProvider opts = s3_Kind (stow W)"
  shows "NewStorage_stowCfg W opts
           = ([], Return
               (map_of (filter (\<lambda>kv. snd kv \<noteq> [])
                [(s3_ConfigSecretKey (stow W), S3ConfigSecretKey opts),
                 (s3_ConfigRegion (stow W), S3ConfigRegion opts),
                 (s3_ConfigEndpoint (stow W), S3ConfigEndpoint opts),
                 (s3_ConfigAccessKeyID (stow W), S3ConfigAccessKeyID opts)])))"
  using assms by (auto simp: NewStorage_stowCfg_def Let_def setIfNonEmpty_def)

lemma stowCfg_gcs_nopath:
  assumes "ObjectStoreProvider opts \<noteq> s3_Kind (stow W)"
    and "ObjectStoreProvider opts = gcs_Kind (stow W)"
    and "GCSConfigJSONKeyPath opts = []"
  shows "NewStorage_stowCfg W opts
           = ([], Return
               (map_of (filter (\<lambda>kv. snd kv \<noteq> [])
                [(gcs_ConfigProjectId (stow W), GCSConfigProjectId opts)])))"
  using assms by (auto simp: NewStorage_stowCfg_def Let_def setIfNonEmpty_def andThen_def)

lemma stowCfg_gcs_path:
  assumes "ObjectStoreProvider opts \<noteq> s3_Kind (stow W)"
    and "ObjectStoreProvider opts = gcs_Kind (stow W)"
    and "GCSConfigJSONKeyPath opts \<noteq> []"
    and "ioutil_ReadFile W (GCSConfigJSONKeyPath opts) = Inr jsonKey"
  shows "NewStorage_stowCfg W opts
           = ([], Return
               (map_of (filter (\<lambda>kv. snd kv \<noteq> [])
                      [(gcs_ConfigProjectId (stow W), GCSConfigProjectId opts)]
                    @ [(gcs_ConfigJSON (stow W), jsonKey)])))"
  using assms
  by (auto simp: NewStorage_stowCfg_def Let_def setIfNonEmpty_def andThen_def)

lemma stowCfg_gcs_unreadable:
  assumes "ObjectStoreProvider opts \<noteq> s3_Kind (stow W)"
    and "ObjectStoreProvider opts = gcs_Kind (stow W)"
    and "GCSConfigJSONKeyPath opts \<noteq> []"
    and "ioutil_ReadFile W (GCSConfigJSONKeyPath opts) = Inl err"
  shows "NewStorage_stowCfg W opts
           = ([Stderr (''Cannot read json key file: '' @ error_Error err @ newline)],
              os_Exit 1)"
  using assms by (simp add: NewStorage_stowCfg_def Let_def andThen_def)

lemma stowCfg_azure:
  assumes "ObjectStoreProvider opts \<noteq> s3_Kind (stow W)"
    and "ObjectStoreProvider opts \<noteq> gcs_Kind (stow W)"
    and "ObjectStoreProvider opts = azure_Kind (stow W)"
  shows "NewStorage_stowCfg W opts
           = ([], Return
               (map_of (filter (\<lambda>kv. snd kv \<noteq> [])
                [(azure_ConfigKey (stow W), AzureConfigKey opts),
                 (azure_ConfigAccount (stow W), AzureConfigAccount opts)])))"
  using assms by (auto simp: NewStorage_stowCfg_def Let_def setIfNonEmpty_def)

lemma stowCfg_swift:
  assumes "ObjectStoreProvider opts \<noteq> s3_Kind (stow W)"
    and "ObjectStoreProvider opts \<noteq> gcs_Kind (stow W)"
    and "ObjectStoreProvider opts \<noteq> azure_Kind (stow W)"
    and "ObjectStoreProvider opts = swift_Kind (stow W)"
  shows "NewStorage_stowCfg W opts
           = ([], Return
               (map_of (filter (\<lambda>kv. snd kv \<noteq> [])
                [(swift_ConfigUsername (stow W), SwiftConfigUsername opts),
                 (swift_ConfigTenantName (stow W), SwiftConfigTenantName opts),
                 (swift_ConfigTenantAuthURL (stow W), SwiftConfigTenantAuthURL opts),
                 (swift_ConfigKey (stow W), SwiftConfigKey opts)])))"
  using assms by (auto simp: NewStorage_stowCfg_def Let_def setIfNonEmpty_def)

text \<open>
  C7, as amended. A failure to obtain the client configuration or the client set ends
  the process, whatever the store kind. Once both have been obtained, the outcome of
  the factory is decided by the store kind. \<open>memory\<close> returns the memory driver and
  \<open>configmap\<close> the config-map driver of the resolved namespace, both without any call
  to the cluster or the object store. For \<open>inline-tpr\<close> and \<open>object-store-tpr\<close> the
  calls of the resource bootstrap come first, beginning with the lookup of the resource
  type; a bootstrap that ends the process ends the factory; after a bootstrap that
  returns, \<open>inline-tpr\<close> returns the release driver of the resolved namespace, and
  \<open>object-store-tpr\<close> dials the provider with the configuration map built from the
  options, resolves the container and returns the object-store driver of the resolved
  namespace, that container and the storage prefix. Any other kind returns the error
  \<open>Unknow store type\<close> and no driver. The configuration map of the object-store kind
  holds, under the keys of the selected provider, exactly that provider's fields that
  are not empty (for the second provider, the contents of the key file named by the
  options, when one is named, and the project id); an unknown provider ends the
  process. So two option records that agree on the kind, the provider, the container,
  the prefix and the fields of the selected provider give the same outcome and the same
  calls.
\<close>

theorem NewStorage_selection:
  "(client_ClientConfig W = Inl err \<longrightarrow>
      NewStorage W opts
        = ([Stderr (''Cannot initialize Kubernetes connection: '' @ error_Error err
                  @ newline)], os_Exit 1))
   \<and> (client_ClientConfig W = Inr clientcfg \<and> client_ClientSet W = Some err \<longrightarrow>
      NewStorage W opts
        = ([Stderr (''Cannot initialize Kubernetes connection: '' @ error_Error err
                  @ newline)], os_Exit 1))
   \<and> (client_ClientConfig W = Inr clientcfg \<and> client_ClientSet W = None
        \<and> StoreType opts = StorageMemory \<longrightarrow>
      NewStorage W opts = ([], Return (Inr (Init driver_NewMemory))))
   \<and> (client_ClientConfig W = Inr clientcfg \<and> client_ClientSet W = None
        \<and> StoreType opts = StorageConfigMap \<longrightarrow>
      NewStorage W opts = ([], Return (Inr (Init (driver_NewConfigMaps (namespace W))))))
   \<and> (client_ClientConfig W = Inr clientcfg \<and> client_ClientSet W = None
        \<and> (StoreType opts = StorageInlineTPR \<or> StoreType opts = StorageObjectStoreTPR) \<longrightarrow>
      (\<exists>t. fst (NewStorage W opts) = fst (ensureResource W) @ t)
      \<and> (\<exists>t. fst (ensureResource W)
               = ThirdPartyResources_Get_call (''release.'' @ GroupName W) # t))
   \<and> (client_ClientConfig W = Inr clientcfg \<and> client_ClientSet W = None
        \<and> (StoreType opts = StorageInlineTPR \<or> StoreType opts = StorageObjectStoreTPR)
        \<and> snd (ensureResource W) = os_Exit n \<longrightarrow>
      NewStorage W opts = (fst (ensureResource W), os_Exit n))
   \<and> (client_ClientConfig W = Inr clientcfg \<and> client_ClientSet W = None
        \<and> StoreType opts = StorageInlineTPR \<and> ensureResource W = (t, Return ())
        \<and> NewExtensionsForConfig W clientcfg = None \<longrightarrow>
      NewStorage W opts = (t, Return (Inr (Init (driver_NewReleases (namespace W))))))
   \<and> (client_ClientConfig W = Inr clientcfg \<and> client_ClientSet W = None
        \<and> StoreType opts = StorageObjectStoreTPR \<and> ensureResource W = (t, Return ())
        \<and> NewStorage_stowCfg W opts = (t1, Return c1)
        \<and> stow_Dial W (ObjectStoreProvider opts) c1 = Inr loc
        \<and> Location_Container W loc (Container opts) = Inr cont
        \<and> NewExtensionsForConfig W clientcfg = None \<longrightarrow>
      NewStorage W opts
        = (t @ t1 @ [stow_Dial_call (ObjectStoreProvider opts) c1,
                     Location_Container_call (Container opts)],
           Return (Inr (Init (driver_NewObjectStoreReleases (namespace W) cont
                               (StoragePrefix opts))))))
   \<and> (client_ClientConfig W = Inr clientcfg \<and> client_ClientSet W = None
        \<and> StoreType opts \<noteq> StorageMemory \<and> StoreType opts \<noteq> StorageConfigMap
        \<and> StoreType opts \<noteq> StorageInlineTPR \<and> StoreType opts \<noteq> StorageObjectStoreTPR \<longrightarrow>
      NewStorage W opts
        = ([], Return (Inl (errors_New (''Unknow store type '' @ StoreType opts)))))
   \<and> (ObjectStoreProvider opts = s3_Kind (stow W) \<longrightarrow>
      NewStorage_stowCfg W opts
        = ([], Return
            (map_of (filter (\<lambda>kv. snd kv \<noteq> [])
             [(s3_ConfigSecretKey (stow W), S3ConfigSecretKey opts),
              (s3_ConfigRegion (stow W), S3ConfigRegion opts),
              (s3_ConfigEndpoint (stow W), S3ConfigEndpoint opts),
              (s3_ConfigAccessKeyID (stow W), S3ConfigAccessKeyID opts)]))))
   \<and> (ObjectStoreProvider opts \<noteq> s3_Kind (stow W) \<and> ObjectStoreProvider opts = gcs_Kind (stow W)
        \<and> GCSConfigJSONKeyPath opts = [] \<longrightarrow>
      NewStorage_stowCfg W opts
        = ([], Return
            (map_of (filter (\<lambda>kv. snd kv \<noteq> [])
             [(gcs_ConfigProjectId (stow W), GCSConfigProjectId opts)]))))
   \<and> (ObjectStoreProvider opts \<noteq> s3_Kind (stow W) \<and> ObjectStoreProvider opts = gcs_Kind (stow W)
        \<and> GCSConfigJSONKeyPath opts \<noteq> []
        \<and> ioutil_ReadFile W (GCSConfigJSONKeyPath opts) = Inr jsonKey \<longrightarrow>
      NewStorage_stowCfg W opts
        = ([], Return
            (map_of (filter (\<lambda>kv. snd kv \<noteq> [])
                      [(gcs_ConfigProjectId (stow W), GCSConfigProjectId opts)]
                    @ [(gcs_ConfigJSON (stow W), jsonKey)]))))
   \<and> (ObjectStoreProvider opts \<noteq> s3_Kind (stow W) \<and> ObjectStoreProvider opts = gcs_Kind (stow W)
        \<and> GCSConfigJSONKeyPath opts \<noteq> []
        \<and> ioutil_ReadFile W (GCSConfigJSONKeyPath opts) = Inl err \<longrightarrow>
      NewStorage_stowCfg W opts
        = ([Stderr (''Cannot read json key file: '' @ error_Error err @ newline)],
           os_Exit 1))
   \<and> (ObjectStoreProvider opts \<noteq> s3_Kind (stow W) \<and> ObjectStoreProvider opts \<noteq> gcs_Kind (stow W)
        \<and> ObjectStoreProvider opts = azure_Kind (stow W) \<longrightarrow>
      NewStorage_stowCfg W opts
        = ([], Return
            (map_of (filter (\<lambda>kv. snd kv \<noteq> [])
             [(azure_ConfigKey (stow W), AzureConfigKey opts),
              (azure_ConfigAccount (stow W), AzureConfigAccount opts)]))))
   \<and> (ObjectStoreProvider opts \<noteq> s3_Kind (stow W) \<and> ObjectStoreProvider opts \<noteq> gcs_Kind (stow W)
        \<and> ObjectStoreProvider opts \<noteq> azure_Kind (stow W)
        \<and> ObjectStoreProvider opts = swift_Kind (stow W) \<longrightarrow>
      NewStorage_stowCfg W opts
        = ([], Return
            (map_of (filter (\<lambda>kv. snd kv \<noteq> [])
             [(swift_ConfigUsername (stow W), SwiftConfigUsername opts),
              (swift_ConfigTenantName (stow W), SwiftConfigTenantName opts),
              (swift_ConfigTenantAuthURL (stow W), SwiftConfigTenantAuthURL opts),
              (swift_ConfigKey (stow W), SwiftConfigKey opts)]))))
   \<and> (ObjectStoreProvider opts \<noteq> s3_Kind (stow W) \<and> ObjectStoreProvider opts \<noteq> gcs_Kind (stow W)
        \<and> ObjectStoreProvider opts \<noteq> azure_Kind (stow W) \<and> ObjectStoreProvider opts \<noteq> swift_Kind (stow W) \<longrightarrow>
      NewStorage_stowCfg W opts
        = ([Stderr (''Unknown provider: '' @ ObjectStoreProvider opts @ newline)], os_Exit 1))
   \<and> (client_ClientConfig W = Inr clientcfg \<and> client_ClientSet W = None
        \<and> StoreType opts' = StoreType opts
        \<and> ObjectStoreProvider opts' = ObjectStoreProvider opts
        \<and> Container opts' = Container opts \<and> StoragePrefix opts' = StoragePrefix opts
        \<and> (ObjectStoreProvider opts = s3_Kind (stow W) \<longrightarrow>
              S3ConfigAccessKeyID opts' = S3ConfigAccessKeyID opts
              \<and> S3ConfigEndpoint opts' = S3ConfigEndpoint opts
              \<and> S3ConfigRegion opts' = S3ConfigRegion opts
              \<and> S3ConfigSecretKey opts' = S3ConfigSecretKey opts)
        \<and> (ObjectStoreProvider opts \<noteq> s3_Kind (stow W)
             \<and> ObjectStoreProvider opts = gcs_Kind (stow W) \<longrightarrow>
              GCSConfigJSONKeyPath opts' = GCSConfigJSONKeyPath opts
              \<and> GCSConfigProjectId opts' = GCSConfigProjectId opts)
        \<and> (ObjectStoreProvider opts \<noteq> s3_Kind (stow W)
             \<and> ObjectStoreProvider opts \<noteq> gcs_Kind (stow W)
             \<and> ObjectStoreProvider opts = azure_Kind (stow W) \<longrightarrow>
              AzureConfigAccount opts' = AzureConfigAccount opts
              \<and> AzureConfigKey opts' = AzureConfigKey opts)
        \<and> (ObjectStoreProvider opts \<noteq> s3_Kind (stow W)
             \<and> ObjectStoreProvider opts \<noteq> gcs_Kind (stow W)
             \<and> ObjectStoreProvider opts \<noteq> azure_Kind (stow W)
             \<and> ObjectStoreProvider opts = swift_Kind (stow W) \<longrightarrow>
              SwiftConfigKey opts' = SwiftConfigKey opts
              \<and> SwiftConfigTenantAuthURL opts' = SwiftConfigTenantAuthURL opts
              \<and> SwiftConfigTenantName opts' = SwiftConfigTenantName opts
              \<and> SwiftConfigUsername opts' = SwiftConfigUsername opts) \<longrightarrow>
      NewStorage W opts' = NewStorage W opts)"
proof -
  have nocfg: "client_ClientConfig W = Inl err \<longrightarrow>
      NewStorage W opts
        = ([Stderr (''Cannot initialize Kubernetes connection: '' @ error_Error err
                  @ newline)], os_Exit 1)"
    by (simp add: NewStorage_def)
  have nocs: "client_ClientConfig W = Inr clientcfg \<and> client_ClientSet W = Some err \<longrightarrow>
      NewStorage W opts
        = ([Stderr (''Cannot initialize Kubernetes connection: '' @ error_Error err
                  @ newline)], os_Exit 1)"
    by (simp add: NewStorage_def)
  have mem: "client_ClientConfig W = Inr clientcfg \<and> client_ClientSet W = None
        \<and> StoreType opts = StorageMemory \<longrightarrow>
      NewStorage W opts = ([], Return (Inr (Init driver_NewMemory)))"
    by (simp add: NewStorage_client_ok)
  have cm: "client_ClientConfig W = Inr clientcfg \<and> client_ClientSet W = None
        \<and> StoreType opts = StorageConfigMap \<longrightarrow>
      NewStorage W opts = ([], Return (Inr (Init (driver_NewConfigMaps (namespace W)))))"
    by (simp add: NewStorage_client_ok StorageMemory_def StorageConfigMap_def)
  have first: "client_ClientConfig W = Inr clientcfg \<and> client_ClientSet W = None
        \<and> (StoreType opts = StorageInlineTPR \<or> StoreType opts = StorageObjectStoreTPR) \<longrightarrow>
      (\<exists>t. fst (NewStorage W opts) = fst (ensureResource W) @ t)
      \<and> (\<exists>t. fst (ensureResource W)
               = ThirdPartyResources_Get_call (''release.'' @ GroupName W) # t)"
    using NewStorage_bootstrap_first ensureResource_first_call by blast
  have bexit: "client_ClientConfig W = Inr clientcfg \<and> client_ClientSet W = None
        \<and> (StoreType opts = StorageInlineTPR \<or> StoreType opts = StorageObjectStoreTPR)
        \<and> snd (ensureResource W) = os_Exit n \<longrightarrow>
      NewStorage W opts = (fst (ensureResource W), os_Exit n)"
    by (intro impI, (elim conjE)?, rule NewStorage_bootstrap_exit; assumption)
  have inline: "client_ClientConfig W = Inr clientcfg \<and> client_ClientSet W = None
        \<and> StoreType opts = StorageInlineTPR \<and> ensureResource W = (t, Return ())
        \<and> NewExtensionsForConfig W clientcfg = None \<longrightarrow>
      NewStorage W opts = (t, Return (Inr (Init (driver_NewReleases (namespace W)))))"
    by (intro impI, (elim conjE)?, rule NewStorage_inline_ok; assumption)
  have objstore: "client_ClientConfig W = Inr clientcfg \<and> client_ClientSet W = None
        \<and> StoreType opts = StorageObjectStoreTPR \<and> ensureResource W = (t, Return ())
        \<and> NewStorage_stowCfg W opts = (t1, Return c1)
        \<and> stow_Dial W (ObjectStoreProvider opts) c1 = Inr loc
        \<and> Location_Container W loc (Container opts) = Inr cont
        \<and> NewExtensionsForConfig W clientcfg = None \<longrightarrow>
      NewStorage W opts
        = (t @ t1 @ [stow_Dial_call (ObjectStoreProvider opts) c1,
                     Location_Container_call (Container opts)],
           Return (Inr (Init (driver_NewObjectStoreReleases (namespace W) cont
                               (StoragePrefix opts)))))"
    by (intro impI, (elim conjE)?, rule NewStorage_objstore_ok; assumption)
  have unk: "client_ClientConfig W = Inr clientcfg \<and> client_ClientSet W = None
        \<and> StoreType opts \<noteq> StorageMemory \<and> StoreType opts \<noteq> StorageConfigMap
        \<and> StoreType opts \<noteq> StorageInlineTPR \<and> StoreType opts \<noteq> StorageObjectStoreTPR \<longrightarrow>
      NewStorage W opts
        = ([], Return (Inl (errors_New (''Unknow store type '' @ StoreType opts))))"
    by (simp add: NewStorage_client_ok)
  have s3: "ObjectStoreProvider opts = s3_Kind (stow W) \<longrightarrow>
      NewStorage_stowCfg W opts
        = ([], Return
            (map_of (filter (\<lambda>kv. snd kv \<noteq> [])
             [(s3_ConfigSecretKey (stow W), S3ConfigSecretKey opts),
              (s3_ConfigRegion (stow W), S3ConfigRegion opts),
              (s3_ConfigEndpoint (stow W), S3ConfigEndpoint opts),
              (s3_ConfigAccessKeyID (stow W), S3ConfigAccessKeyID opts)])))"
    by (intro impI, (elim conjE)?, rule stowCfg_s3; assumption)
  have gcs0: "ObjectStoreProvider opts \<noteq> s3_Kind (stow W) \<and> ObjectStoreProvider opts = gcs_Kind (stow W)
        \<and> GCSConfigJSONKeyPath opts = [] \<longrightarrow>
      NewStorage_stowCfg W opts
        = ([], Return
            (map_of (filter (\<lambda>kv. snd kv \<noteq> [])
             [(gcs_ConfigProjectId (stow W), GCSConfigProjectId opts)])))"
    by (intro impI, (elim conjE)?, rule stowCfg_gcs_nopath; assumption)
  have gcs1: "ObjectStoreProvider opts \<noteq> s3_Kind (stow W) \<and> ObjectStoreProvider opts = gcs_Kind (stow W)
        \<and> GCSConfigJSONKeyPath opts \<noteq> []
        \<and> ioutil_ReadFile W (GCSConfigJSONKeyPath opts) = Inr jsonKey \<longrightarrow>
      NewStorage_stowCfg W opts
        = ([], Return
            (map_of (filter (\<lambda>kv. snd kv \<noteq> [])
                      [(gcs_ConfigProjectId (stow W), GCSConfigProjectId opts)]
                    @ [(gcs_ConfigJSON (stow W), jsonKey)])))"
    by (intro impI, (elim conjE)?, rule stowCfg_gcs_path; assumption)
  have gcs2: "ObjectStoreProvider opts \<noteq> s3_Kind (stow W) \<and> ObjectStoreProvider opts = gcs_Kind (stow W)
        \<and> GCSConfigJSONKeyPath opts \<noteq> []
        \<and> ioutil_ReadFile W (GCSConfigJSONKeyPath opts) = Inl err \<longrightarrow>
      NewStorage_stowCfg W opts
        = ([Stderr (''Cannot read json key file: '' @ error_Error err @ newline)],
           os_Exit 1)"
    by (intro impI, (elim conjE)?, rule stowCfg_gcs_unreadable; assumption)
  have azure: "ObjectStoreProvider opts \<noteq> s3_Kind (stow W) \<and> ObjectStoreProvider opts \<noteq> gcs_Kind (stow W)
        \<and> ObjectStoreProvider opts = azure_Kind (stow W) \<longrightarrow>
      NewStorage_stowCfg W opts
        = ([], Return
            (map_of (filter (\<lambda>kv. snd kv \<noteq> [])
             [(azure_ConfigKey (stow W), AzureConfigKey opts),
              (azure_ConfigAccount (stow W), AzureConfigAccount opts)])))"
    by (intro impI, (elim conjE)?, rule stowCfg_azure; assumption)
  have swift: "ObjectStoreProvider opts \<noteq> s3_Kind (stow W) \<and> ObjectStoreProvider opts \<noteq> gcs_Kind (stow W)
        \<and> ObjectStoreProvider opts \<noteq> azure_Kind (stow W)
        \<and> ObjectStoreProvider opts = swift_Kind (stow W) \<longrightarrow>
      NewStorage_stowCfg W opts
        = ([], Return
            (map_of (filter (\<lambda>kv. snd kv \<noteq> [])
             [(swift_ConfigUsername (stow W), SwiftConfigUsername opts),
              (swift_ConfigTenantName (stow W), SwiftConfigTenantName opts),
              (swift_ConfigTenantAuthURL (stow W), SwiftConfigTenantAuthURL opts),
              (swift_ConfigKey (stow W), SwiftConfigKey opts)])))"
    by (intro impI, (elim conjE)?, rule stowCfg_swift; assumption)
  have noprov: "ObjectStoreProvider opts \<noteq> s3_Kind (stow W) \<and> ObjectStoreProvider opts \<noteq> gcs_Kind (stow W)
        \<and> ObjectStoreProvider opts \<noteq> azure_Kind (stow W) \<and> ObjectStoreProvider opts \<noteq> swift_Kind (stow W) \<longrightarrow>
      NewStorage_stowCfg W opts
        = ([Stderr (''Unknown provider: '' @ ObjectStoreProvider opts @ newline)], os_Exit 1)"
    by (simp add: NewStorage_stowCfg_def)
  have ni: "client_ClientConfig W = Inr clientcfg \<and> client_ClientSet W = None
        \<and> StoreType opts' = StoreType opts
        \<and> ObjectStoreProvider opts' = ObjectStoreProvider opts
        \<and> Container opts' = Container opts \<and> StoragePrefix opts' = StoragePrefix opts
        \<and> (ObjectStoreProvider opts = s3_Kind (stow W) \<longrightarrow>
              S3ConfigAccessKeyID opts' = S3ConfigAccessKeyID opts
              \<and> S3ConfigEndpoint opts' = S3ConfigEndpoint opts
              \<and> S3ConfigRegion opts' = S3ConfigRegion opts
              \<and> S3ConfigSecretKey opts' = S3ConfigSecretKey opts)
        \<and> (ObjectStoreProvider opts \<noteq> s3_Kind (stow W)
             \<and> ObjectStoreProvider opts = gcs_Kind (stow W) \<longrightarrow>
              GCSConfigJSONKeyPath opts' = GCSConfigJSONKeyPath opts
              \<and> GCSConfigProjectId opts' = GCSConfigProjectId opts)
        \<and> (ObjectStoreProvider opts \<noteq> s3_Kind (stow W)
             \<and> ObjectStoreProvider opts \<noteq> gcs_Kind (stow W)
             \<and> ObjectStoreProvider opts = azure_Kind (stow W) \<longrightarrow>
              AzureConfigAccount opts' = AzureConfigAccount opts
              \<and> AzureConfigKey opts' = AzureConfigKey opts)
        \<and> (ObjectStoreProvider opts \<noteq> s3_Kind (stow W)
             \<and> ObjectStoreProvider opts \<noteq> gcs_Kind (stow W)
             \<and> ObjectStoreProvider opts \<noteq> azure_Kind (stow W)
             \<and> ObjectStoreProvider opts = swift_Kind (stow W) \<longrightarrow>
              SwiftConfigKey opts' = SwiftConfigKey opts
              \<and> SwiftConfigTenantAuthURL opts' = SwiftConfigTenantAuthURL opts
              \<and> SwiftConfigTenantName opts' = SwiftConfigTenantName opts
              \<and> SwiftConfigUsername opts' = SwiftConfigUsername opts) \<longrightarrow>
      NewStorage W opts' = NewStorage W opts"
  proof
    assume a: "client_ClientConfig W = Inr clientcfg \<and> client_ClientSet W = None
        \<and> StoreType opts' = StoreType opts
        \<and> ObjectStoreProvider opts' = ObjectStoreProvider opts
        \<and> Container opts' = Container opts \<and> StoragePrefix opts' = StoragePrefix opts
        \<and> (ObjectStoreProvider opts = s3_Kind (stow W) \<longrightarrow>
              S3ConfigAccessKeyID opts' = S3ConfigAccessKeyID opts
              \<and> S3ConfigEndpoint opts' = S3ConfigEndpoint opts
              \<and> S3ConfigRegion opts' = S3ConfigRegion opts
              \<and> S3ConfigSecretKey opts' = S3ConfigSecretKey opts)
        \<and> (ObjectStoreProvider opts \<noteq> s3_Kind (stow W)
             \<and> ObjectStoreProvider opts = gcs_Kind (stow W) \<longrightarrow>
              GCSConfigJSONKeyPath opts' = GCSConfigJSONKeyPath opts
              \<and> GCSConfigProjectId opts' = GCSConfigProjectId opts)
        \<and> (ObjectStoreProvider opts \<noteq> s3_Kind (stow W)
             \<and> ObjectStoreProvider opts \<noteq> gcs_Kind (stow W)
             \<and> ObjectStoreProvider opts = azure_Kind (stow W) \<longrightarrow>
              AzureConfigAccount opts' = AzureConfigAccount opts
              \<and> AzureConfigKey opts' = AzureConfigKey opts)
        \<and> (ObjectStoreProvider opts \<noteq> s3_Kind (stow W)
             \<and> ObjectStoreProvider opts \<noteq> gcs_Kind (stow W)
             \<and> ObjectStoreProvider opts \<noteq> azure_Kind (stow W)
             \<and> ObjectStoreProvider opts = swift_Kind (stow W) \<longrightarrow>
              SwiftConfigKey opts' = SwiftConfigKey opts
              \<and> SwiftConfigTenantAuthURL opts' = SwiftConfigTenantAuthURL opts
              \<and> SwiftConfigTenantName opts' = SwiftConfigTenantName opts
              \<and> SwiftConfigUsername opts' = SwiftConfigUsername opts)"
    then have "NewStorage_stowCfg W opts' = NewStorage_stowCfg W opts"
      by (intro stowCfg_depends_on_selected) simp_all
    with a show "NewStorage W opts' = NewStorage W opts"
      by (intro NewStorage_depends_on_selected [of W clientcfg]) simp_all
  qed
  from nocfg nocs mem cm first bexit inline objstore unk s3 gcs0 gcs1 gcs2 azure swift noprov ni show ?thesis
    by (intro conjI)
qed

lemma world0_client:
  "client_ClientConfig world0 = Inr syscfg0" "client_ClientSet world0 = None"
  by (simp_all add: world0_def)

lemma world0_namespace: "namespace world0 = ''tiller-ns''"
  by (simp add: namespace_def world0_def)

lemma world0_stow:
  "stow world0 = stow0" "NewExtensionsForConfig world0 c = None"
  "stow_Dial world0 k m = Inr k" "Location_Container world0 l n = Inr n"
  by (simp_all add: world0_def)

lemma ensureResource_world0:
  "ensureResource world0 = ([ThirdPartyResources_Get_call ''release.helm.sh''], Return ())"
  by (simp add: ensureResource_def Let_def world0_def kberrs_IsNotFound_def)

lemma opts_s3_fields:
  "StoreType opts_s3 = StorageObjectStoreTPR" "ObjectStoreProvider opts_s3 = ''s3''"
  "Container opts_s3 = ''releases''" "StoragePrefix opts_s3 = ''helm''"
  "S3ConfigAccessKeyID opts_s3 = ''AKIA''" "S3ConfigEndpoint opts_s3 = []"
  "S3ConfigRegion opts_s3 = ''us-east-1''" "S3ConfigSecretKey opts_s3 = ''shh''"
  by (simp_all add: opts_s3_def opts0_def StorageObjectStoreTPR_def)

lemma stowCfg_world0_opts_s3:
  "NewStorage_stowCfg world0 opts_s3
     = ([], Return [''access_key_id'' \<mapsto> ''AKIA'', ''region'' \<mapsto> ''us-east-1'',
                    ''secret_key'' \<mapsto> ''shh''])"
  by (simp add: NewStorage_stowCfg_def Let_def setIfNonEmpty_def world0_stow stow0_def
      opts_s3_fields)

theorem NewStorage_selection_witness:
  "NewStorage world_noclient opts_s3
     = ([Stderr (''Cannot initialize Kubernetes connection: no kubeconfig'' @ newline)],
        os_Exit 1)
   \<and> NewStorage world0 (opts0\<lparr>StoreType := ''memory''\<rparr>)
     = ([], Return (Inr (Init driver_NewMemory)))
   \<and> NewStorage world0 (opts0\<lparr>StoreType := ''configmap''\<rparr>)
     = ([], Return (Inr (Init (driver_NewConfigMaps ''tiller-ns''))))
   \<and> NewStorage world0 (opts0\<lparr>StoreType := ''inline-tpr''\<rparr>)
     = ([ThirdPartyResources_Get_call ''release.helm.sh''],
        Return (Inr (Init (driver_NewReleases ''tiller-ns''))))
   \<and> NewStorage_stowCfg world0 opts_s3
     = ([], Return [''access_key_id'' \<mapsto> ''AKIA'', ''region'' \<mapsto> ''us-east-1'',
                    ''secret_key'' \<mapsto> ''shh''])
   \<and> NewStorage world0 opts_s3
     = ([ThirdPartyResources_Get_call ''release.helm.sh'',
         stow_Dial_call ''s3'' [''access_key_id'' \<mapsto> ''AKIA'', ''region'' \<mapsto> ''us-east-1'',
                                ''secret_key'' \<mapsto> ''shh''],
         Location_Container_call ''releases''],
        Return (Inr (Init (driver_NewObjectStoreReleases ''tiller-ns'' ''releases''
                            ''helm''))))
   \<and> NewStorage world0 (opts0\<lparr>StoreType := ''bogus''\<rparr>)
     = ([], Return (Inl (errors_New ''Unknow store type bogus'')))
   \<and> NewStorage world0 (opts_s3\<lparr>AzureConfigKey := ''zzz'', SwiftConfigUsername := ''joe''\<rparr>)
     = NewStorage world0 opts_s3"
proof (intro conjI)
  show "NewStorage world_noclient opts_s3
     = ([Stderr (''Cannot initialize Kubernetes connection: no kubeconfig'' @ newline)],
        os_Exit 1)"
    using NewStorage_selection
            [where W = world_noclient and opts = opts_s3 and clientcfg = syscfg0
               and err = "errors_New ''no kubeconfig''",
             THEN conjunct2, THEN conjunct1]
    by (simp add: world_noclient_def world0_def error_Error_def)
  show "NewStorage world0 (opts0\<lparr>StoreType := ''memory''\<rparr>)
     = ([], Return (Inr (Init driver_NewMemory)))"
    using NewStorage_selection
            [where W = world0 and opts = "opts0\<lparr>StoreType := ''memory''\<rparr>"
               and clientcfg = syscfg0,
             THEN conjunct2, THEN conjunct2, THEN conjunct1]
    by (simp add: StorageMemory_def world0_client)
  show "NewStorage world0 (opts0\<lparr>StoreType := ''configmap''\<rparr>)
     = ([], Return (Inr (Init (driver_NewConfigMaps ''tiller-ns''))))"
    using NewStorage_selection
            [where W = world0 and opts = "opts0\<lparr>StoreType := ''configmap''\<rparr>"
               and clientcfg = syscfg0,
             THEN conjunct2, THEN conjunct2, THEN conjunct2, THEN conjunct1]
    by (simp add: StorageConfigMap_def world0_client world0_namespace)
  show "NewStorage world0 (opts0\<lparr>StoreType := ''inline-tpr''\<rparr>)
     = ([ThirdPartyResources_Get_call ''release.helm.sh''],
        Return (Inr (Init (driver_NewReleases ''tiller-ns''))))"
    using NewStorage_selection
            [where W = world0 and opts = "opts0\<lparr>StoreType := ''inline-tpr''\<rparr>"
               and clientcfg = syscfg0
               and t = "[ThirdPartyResources_Get_call ''release.helm.sh'']",
             THEN conjunct2, THEN conjunct2, THEN conjunct2, THEN conjunct2,
             THEN conjunct2, THEN conjunct2, THEN conjunct1]
    by (simp add: StorageInlineTPR_def world0_client world0_namespace world0_stow
        ensureResource_world0)
  show "NewStorage_stowCfg world0 opts_s3
     = ([], Return [''access_key_id'' \<mapsto> ''AKIA'', ''region'' \<mapsto> ''us-east-1'',
                    ''secret_key'' \<mapsto> ''shh''])"
    using NewStorage_selection
            [where W = world0 and opts = opts_s3,
             THEN conjunct2, THEN conjunct2, THEN conjunct2, THEN conjunct2,
             THEN conjunct2, THEN conjunct2, THEN conjunct2, THEN conjunct2,
             THEN conjunct2, THEN conjunct1]
    by (simp add: world0_stow stow0_def opts_s3_fields)
  show "NewStorage world0 opts_s3
     = ([ThirdPartyResources_Get_call ''release.helm.sh'',
         stow_Dial_call ''s3'' [''access_key_id'' \<mapsto> ''AKIA'', ''region'' \<mapsto> ''us-east-1'',
                                ''secret_key'' \<mapsto> ''shh''],
         Location_Container_call ''releases''],
        Return (Inr (Init (driver_NewObjectStoreReleases ''tiller-ns'' ''releases''
                            ''helm''))))"
    using NewStorage_selection
            [where W = world0 and opts = opts_s3 and clientcfg = syscfg0
               and t = "[ThirdPartyResources_Get_call ''release.helm.sh'']"
               and ?t1.0 = "[]"
               and ?c1.0 = "[''access_key_id'' \<mapsto> ''AKIA'', ''region'' \<mapsto> ''us-east-1'',
                             ''secret_key'' \<mapsto> ''shh'']"
               and loc = "''s3''" and cont = "''releases''",
             THEN conjunct2, THEN conjunct2, THEN conjunct2, THEN conjunct2,
             THEN conjunct2, THEN conjunct2, THEN conjunct2, THEN conjunct1]
    by (simp add: world0_client world0_namespace world0_stow ensureResource_world0
        stowCfg_world0_opts_s3 opts_s3_fields)
  show "NewStorage world0 (opts0\<lparr>StoreType := ''bogus''\<rparr>)
     = ([], Return (Inl (errors_New ''Unknow store type bogus'')))"
    using NewStorage_selection
            [where W = world0 and opts = "opts0\<lparr>StoreType := ''bogus''\<rparr>"
               and clientcfg = syscfg0,
             THEN conjunct2, THEN conjunct2, THEN conjunct2, THEN conjunct2,
             THEN conjunct2, THEN conjunct2, THEN conjunct2, THEN conjunct2,
             THEN conjunct1]
    by (simp add: StorageMemory_def StorageConfigMap_def StorageInlineTPR_def
        StorageObjectStoreTPR_def world0_client)
  show "NewStorage world0 (opts_s3\<lparr>AzureConfigKey := ''zzz'', SwiftConfigUsername := ''joe''\<rparr>)
     = NewStorage world0 opts_s3"
    using NewStorage_selection
            [where W = world0 and opts = opts_s3 and clientcfg = syscfg0
               and opts' = "opts_s3\<lparr>AzureConfigKey := ''zzz'', SwiftConfigUsername := ''joe''\<rparr>",
             THEN conjunct2, THEN conjunct2, THEN conjunct2, THEN conjunct2,
             THEN conjunct2, THEN conjunct2, THEN conjunct2, THEN conjunct2,
             THEN conjunct2, THEN conjunct2, THEN conjunct2, THEN conjunct2,
             THEN conjunct2, THEN conjunct2, THEN conjunct2, THEN conjunct2]
    by (simp add: world0_client world0_stow stow0_def opts_s3_fields)
qed

text \<open>
  C7 as stated fails when the client set cannot be built: the factory ends the process
  for the kind \<open>memory\<close> too, and returns no driver.
\<close>

theorem NewStorage_memory_needs_client:
  "StoreType (opts0\<lparr>StoreType := ''memory''\<rparr>) = StorageMemory
   \<and> NewStorage world_noclient (opts0\<lparr>StoreType := ''memory''\<rparr>)
     = ([Stderr (''Cannot initialize Kubernetes connection: no kubeconfig'' @ newline)],
        os_Exit 1)"
  by (simp add: StorageMemory_def NewStorage_def world_noclient_def world0_def
      error_Error_def)

text \<open>
  C8, as amended. The bootstrap looks the resource type up first. When the lookup finds
  it, nothing is created and the bootstrap returns. When the lookup reports it absent,
  the bootstrap creates it: if the creation succeeds the bootstrap returns; if the
  creation fails, for whatever reason (an already-exists answer included), the process
  ends with exit code 1, and a factory call for either custom-resource kind ends there
  with no driver. A creation call is made only when the lookup reported the resource
  type absent.
\<close>

theorem ensureResource_create_if_absent:
  assumes "name = ''release.'' @ GroupName W"
    and "tpr = \<lparr>TypeMeta_APIVersion = ''extensions/v1alpha1'',
                 TypeMeta_Kind = ''ThirdPartyResource'',
                 ObjectMeta_Name = ''release.'' @ GroupName W,
                 Versions = [V1alpha1SchemeGroupVersion_Version]\<rparr>"
  shows
  "(ThirdPartyResources_Get W name = None \<longrightarrow>
      ensureResource W = ([ThirdPartyResources_Get_call name], Return ()))
   \<and> (kberrs_IsNotFound (ThirdPartyResources_Get W name)
        \<and> ThirdPartyResources_Create W tpr = None \<longrightarrow>
      ensureResource W
        = ([ThirdPartyResources_Get_call name, ThirdPartyResources_Create_call tpr],
           Return ()))
   \<and> (kberrs_IsNotFound (ThirdPartyResources_Get W name)
        \<and> ThirdPartyResources_Create W tpr = Some e \<longrightarrow>
      ensureResource W
        = ([ThirdPartyResources_Get_call name, ThirdPartyResources_Create_call tpr,
            Stderr (''Failed to create third party resource: '' @ message e @ newline)],
           os_Exit 1))
   \<and> (kberrs_IsNotFound (ThirdPartyResources_Get W name)
        \<and> ThirdPartyResources_Create W tpr = Some e
        \<and> client_ClientConfig W = Inr clientcfg \<and> client_ClientSet W = None
        \<and> (StoreType opts = StorageInlineTPR \<or> StoreType opts = StorageObjectStoreTPR) \<longrightarrow>
      snd (NewStorage W opts) = os_Exit 1)
   \<and> (ThirdPartyResources_Create_call tpr' \<in> set (fst (ensureResource W)) \<longrightarrow>
      kberrs_IsNotFound (ThirdPartyResources_Get W name))"
proof (intro conjI impI)
  assume "ThirdPartyResources_Get W name = None"
  then show "ensureResource W = ([ThirdPartyResources_Get_call name], Return ())"
    using ensureResource_exists [of W] assms(1) by (simp add: kberrs_IsNotFound_def)
next
  assume "kberrs_IsNotFound (ThirdPartyResources_Get W name)
        \<and> ThirdPartyResources_Create W tpr = None"
  then show "ensureResource W
        = ([ThirdPartyResources_Get_call name, ThirdPartyResources_Create_call tpr],
           Return ())"
    using ensureResource_created [of W] assms by simp
next
  assume "kberrs_IsNotFound (ThirdPartyResources_Get W name)
        \<and> ThirdPartyResources_Create W tpr = Some e"
  then show "ensureResource W
        = ([ThirdPartyResources_Get_call name, ThirdPartyResources_Create_call tpr,
            Stderr (''Failed to create third party resource: '' @ message e @ newline)],
           os_Exit 1)"
    using ensureResource_create_fails [of W e] assms by simp
next
  assume a: "kberrs_IsNotFound (ThirdPartyResources_Get W name)
        \<and> ThirdPartyResources_Create W tpr = Some e
        \<and> client_ClientConfig W = Inr clientcfg \<and> client_ClientSet W = None
        \<and> (StoreType opts = StorageInlineTPR \<or> StoreType opts = StorageObjectStoreTPR)"
  then have "snd (ensureResource W) = os_Exit 1"
    using ensureResource_create_fails [of W e] assms by simp
  with a show "snd (NewStorage W opts) = os_Exit 1"
    using NewStorage_bootstrap_exit [of W clientcfg opts 1] by simp
next
  assume "ThirdPartyResources_Create_call tpr' \<in> set (fst (ensureResource W))"
  then show "kberrs_IsNotFound (ThirdPartyResources_Get W name)"
    using assms(1) by (auto simp: ensureResource_def Let_def split: if_splits)
qed

theorem ensureResource_create_if_absent_witness:
  "ensureResource world0 = ([ThirdPartyResources_Get_call ''release.helm.sh''], Return ())
   \<and> ensureResource world_absent
     = ([ThirdPartyResources_Get_call ''release.helm.sh'',
         ThirdPartyResources_Create_call
           \<lparr>TypeMeta_APIVersion = ''extensions/v1alpha1'',
            TypeMeta_Kind = ''ThirdPartyResource'',
            ObjectMeta_Name = ''release.helm.sh'', Versions = [''v1alpha1'']\<rparr>],
        Return ())
   \<and> snd (NewStorage world_race (opts0\<lparr>StoreType := ''inline-tpr''\<rparr>)) = os_Exit 1"
proof (intro conjI)
  show "ensureResource world0 = ([ThirdPartyResources_Get_call ''release.helm.sh''], Return ())"
    using ensureResource_create_if_absent [OF refl refl, where W = world0, THEN conjunct1]
    by (simp add: world0_def)
  show "ensureResource world_absent
     = ([ThirdPartyResources_Get_call ''release.helm.sh'',
         ThirdPartyResources_Create_call
           \<lparr>TypeMeta_APIVersion = ''extensions/v1alpha1'',
            TypeMeta_Kind = ''ThirdPartyResource'',
            ObjectMeta_Name = ''release.helm.sh'', Versions = [''v1alpha1'']\<rparr>],
        Return ())"
    using ensureResource_create_if_absent
            [OF refl refl, where W = world_absent, THEN conjunct2, THEN conjunct1]
    by (simp add: world_absent_def world0_def kberrs_IsNotFound_def
        V1alpha1SchemeGroupVersion_Version_def)
  show "snd (NewStorage world_race (opts0\<lparr>StoreType := ''inline-tpr''\<rparr>)) = os_Exit 1"
    using ensureResource_create_if_absent
            [OF refl refl, where W = world_race
               and e = "apiError StatusReasonAlreadyExists ''already exists''"
               and clientcfg = syscfg0 and opts = "opts0\<lparr>StoreType := ''inline-tpr''\<rparr>",
             THEN conjunct2, THEN conjunct2, THEN conjunct2, THEN conjunct1]
    by (simp add: world_race_def world0_def kberrs_IsNotFound_def StorageInlineTPR_def)
qed

text \<open>
  C8 as stated fails when the lookup reports the resource type absent and its creation
  answers that it already exists: the bootstrap does not treat that answer as success
  but ends the process.
\<close>

theorem ensureResource_already_exists_is_fatal:
  "ThirdPartyResources_Get world_race ''release.helm.sh''
     = Some (apiError StatusReasonNotFound ''not found'')
   \<and> ThirdPartyResources_Create world_race
        \<lparr>TypeMeta_APIVersion = ''extensions/v1alpha1'',
         TypeMeta_Kind = ''ThirdPartyResource'',
         ObjectMeta_Name = ''release.helm.sh'', Versions = [''v1alpha1'']\<rparr>
     = Some (apiError StatusReasonAlreadyExists ''already exists'')
   \<and> ensureResource world_race
     = ([ThirdPartyResources_Get_call ''release.helm.sh'',
         ThirdPartyResources_Create_call
           \<lparr>TypeMeta_APIVersion = ''extensions/v1alpha1'',
            TypeMeta_Kind = ''ThirdPartyResource'',
            ObjectMeta_Name = ''release.helm.sh'', Versions = [''v1alpha1'']\<rparr>,
         Stderr (''Failed to create third party resource: already exists'' @ newline)],
        os_Exit 1)"
  by (simp add: ensureResource_def Let_def world_race_def world0_def kberrs_IsNotFound_def
      V1alpha1SchemeGroupVersion_Version_def)

end
